theory Spec2Isabelle
  imports Complex_Main
begin

section \<open>Corner-frequency pickers of gmprocess (corner\_frequencies.py)\<close>

text \<open>
  A shallow embedding of \<^verbatim>\<open>src/gmprocess/corner_frequencies.py\<close>: the two pickers
  \<^verbatim>\<open>constant\<close> and \<^verbatim>\<open>snr\<close> and the helper \<^verbatim>\<open>fft_smooth\<close>.
  Exceptions are values of a sum type, the stream is an explicit store of trace objects
  with a list of references, and the calls into numpy and obspy whose numerics are not
  the subject of the development (FFT, smoothing, trimming, tapering) are parameters.
\<close>

subsection \<open>Floating-point values as numpy presents them\<close>

text \<open>
  A float64 is a finite value, one of the two infinities, or NaN. A finite value is
  a real; the exponent range is not modelled (no overflow, no subnormal numbers), and
  the two zeros are identified (a divisor zero counts as \<open>+0.0\<close>, which is what a
  magnitude spectrum holds). The special values follow IEEE 754, which is what numpy
  computes: dividing by zero gives an infinity or NaN and raises nothing, and every
  comparison with NaN is false.

  The arithmetic of the frequency grid (\<open>py_div\<close>, \<open>fl_mul\<close>) rounds each result to
  the nearest float64, as the machine does. The quotient of the ratio test and the
  difference of the spectra (\<open>np_div\<close>, \<open>np_sub\<close>) are kept exact: the theorems about
  the scan hold for whatever the two tests return, and the examples use quotients that
  float64 represents exactly.
\<close>

datatype npfloat = Fin real | PInf | NInf | NaN

text \<open>The infinity with the sign of \<open>s\<close>; NaN when \<open>s\<close> is zero.\<close>

definition inf_of_sign :: "real \<Rightarrow> npfloat" where
  "inf_of_sign s = (if 0 < s then PInf else if s < 0 then NInf else NaN)"

fun np_sgn :: "npfloat \<Rightarrow> real" where
  "np_sgn (Fin a) = sgn a"
| "np_sgn PInf = 1"
| "np_sgn NInf = - 1"
| "np_sgn NaN = 0"

text \<open>The sign of a divisor: a zero divisor is \<open>+0.0\<close>.\<close>

fun divisor_sgn :: "npfloat \<Rightarrow> real" where
  "divisor_sgn (Fin b) = (if b < 0 then - 1 else 1)"
| "divisor_sgn PInf = 1"
| "divisor_sgn NInf = - 1"
| "divisor_sgn NaN = 0"

text \<open>numpy's \<^verbatim>\<open>x / y\<close> on float64 scalars and arrays (a warning, never an exception).\<close>

fun np_div :: "npfloat \<Rightarrow> npfloat \<Rightarrow> npfloat" where
  "np_div NaN y = NaN"
| "np_div x NaN = NaN"
| "np_div (Fin a) (Fin b) = (if b = 0 then inf_of_sign a else Fin (a / b))"
| "np_div (Fin a) PInf = Fin 0"
| "np_div (Fin a) NInf = Fin 0"
| "np_div PInf (Fin b) = inf_of_sign (divisor_sgn (Fin b))"
| "np_div NInf (Fin b) = inf_of_sign (- divisor_sgn (Fin b))"
| "np_div PInf PInf = NaN"
| "np_div PInf NInf = NaN"
| "np_div NInf PInf = NaN"
| "np_div NInf NInf = NaN"

text \<open>\<^verbatim>\<open>x * y\<close> before rounding: zero times an infinity is NaN.\<close>

fun np_mul :: "npfloat \<Rightarrow> npfloat \<Rightarrow> npfloat" where
  "np_mul NaN y = NaN"
| "np_mul x NaN = NaN"
| "np_mul (Fin a) (Fin b) = Fin (a * b)"
| "np_mul x y = inf_of_sign (np_sgn x * np_sgn y)"

text \<open>\<^verbatim>\<open>x - y\<close>: the difference of equal infinities is NaN.\<close>

fun np_sub :: "npfloat \<Rightarrow> npfloat \<Rightarrow> npfloat" where
  "np_sub NaN y = NaN"
| "np_sub x NaN = NaN"
| "np_sub (Fin a) (Fin b) = Fin (a - b)"
| "np_sub (Fin a) PInf = NInf"
| "np_sub (Fin a) NInf = PInf"
| "np_sub PInf PInf = NaN"
| "np_sub PInf y = PInf"
| "np_sub NInf NInf = NaN"
| "np_sub NInf y = NInf"

text \<open>
  Rounding to the nearest float64, ties to even: a non-zero real is scaled by the power
  of two that brings it to 53 significant bits, rounded to an integer and scaled back.
\<close>

definition round_half_even :: "real \<Rightarrow> int" where
  "round_half_even x =
     (let f = \<lfloor>x\<rfloor> in
      if x - of_int f < 1 / 2 then f
      else if 1 / 2 < x - of_int f then f + 1
      else if even f then f else f + 1)"

definition fl64 :: "real \<Rightarrow> real" where
  "fl64 x =
     (if x = 0 then 0
      else let u = 2 powr (of_int \<lfloor>log 2 \<bar>x\<bar>\<rfloor> - 52)
           in u * of_int (round_half_even (x / u)))"

fun np_round :: "npfloat \<Rightarrow> npfloat" where
  "np_round (Fin a) = Fin (fl64 a)"
| "np_round x = x"

text \<open>The product as the machine returns it.\<close>

definition fl_mul :: "npfloat \<Rightarrow> npfloat \<Rightarrow> npfloat" where
  "fl_mul x y = np_round (np_mul x y)"

text \<open>The comparisons \<^verbatim>\<open><\<close> and \<^verbatim>\<open><=\<close>; \<^verbatim>\<open>>\<close> and \<^verbatim>\<open>>=\<close> swap the arguments.\<close>

fun np_lt :: "npfloat \<Rightarrow> npfloat \<Rightarrow> bool" where
  "np_lt NaN y = False"
| "np_lt x NaN = False"
| "np_lt (Fin a) (Fin b) = (a < b)"
| "np_lt x NInf = False"
| "np_lt PInf y = False"
| "np_lt (Fin a) PInf = True"
| "np_lt NInf y = True"

fun np_le :: "npfloat \<Rightarrow> npfloat \<Rightarrow> bool" where
  "np_le NaN y = False"
| "np_le x NaN = False"
| "np_le (Fin a) (Fin b) = (a \<le> b)"
| "np_le NInf y = True"
| "np_le x PInf = True"
| "np_le (Fin a) NInf = False"
| "np_le PInf y = False"

definition np_gt :: "npfloat \<Rightarrow> npfloat \<Rightarrow> bool" where
  "np_gt x y = np_lt y x"

definition np_ge :: "npfloat \<Rightarrow> npfloat \<Rightarrow> bool" where
  "np_ge x y = np_le y x"

text \<open>\<^verbatim>\<open>==\<close> on floats: NaN equals nothing, not even itself.\<close>

definition np_eq :: "npfloat \<Rightarrow> npfloat \<Rightarrow> bool" where
  "np_eq x y = (x \<noteq> NaN \<and> x = y)"

subsection \<open>Exceptions\<close>

datatype error = KeyError | ValueError | ZeroDivisionError | IndexError | UnboundLocalError

text \<open>
  Python's \<^verbatim>\<open>x / y\<close> on its own floats raises on a zero divisor
  (\<^verbatim>\<open>1 / trace.stats.sampling_rate\<close>, and \<^verbatim>\<open>1.0/(n*d)\<close> inside \<^verbatim>\<open>rfftfreq\<close>);
  otherwise it is the rounded quotient.
\<close>

definition py_div :: "npfloat \<Rightarrow> npfloat \<Rightarrow> error + npfloat" where
  "py_div x y = (if y = Fin 0 then Inl ZeroDivisionError else Inr (np_round (np_div x y)))"

text \<open>
  The builtin \<^verbatim>\<open>max\<close> over a sequence: it keeps the first item and replaces it by
  a later one that compares greater; an empty sequence is a ValueError.
\<close>

fun py_max :: "npfloat list \<Rightarrow> error + npfloat" where
  "py_max [] = Inl ValueError"
| "py_max (x # xs) = Inr (foldl (\<lambda>m y. if np_gt y m then y else m) x xs)"

subsection \<open>Traces, streams and the log\<close>

text \<open>
  An obspy trace is a sample array with a header (\<^verbatim>\<open>tr.data\<close>, \<^verbatim>\<open>tr.stats\<close>).
  The header fields the pickers and their collaborators read are the channel identifier,
  the sampling rate and the start time; \<^verbatim>\<open>tr.stats.npts\<close> is the length of the
  sample array. \<^verbatim>\<open>tr.stats['processing_parameters']\<close> is a dictionary from a stage
  name to that stage's dictionary of values.
\<close>

datatype pvalue = Str string | Num npfloat

record waveform =
  channel_id :: string
  sampling_rate :: npfloat
  starttime :: npfloat
  data :: "npfloat list"

definition npts :: "waveform \<Rightarrow> nat" where
  "npts w = length (data w)"

record trace =
  wave :: waveform
  processing_parameters :: "string \<rightharpoonup> (string \<rightharpoonup> pvalue)"

text \<open>
  Traces are objects: a stream holds references, and the same trace can be reached from
  the snapshot a loop runs over and from the live list. The state is the store of trace
  objects, the stream's list \<^verbatim>\<open>st.traces\<close> and the messages given to \<^verbatim>\<open>logging.info\<close>.
\<close>

type_synonym addr = nat

datatype log_record = Removing_trace waveform

record stream_state =
  heap :: "addr \<Rightarrow> trace"
  traces :: "addr list"
  logged :: "log_record list"

text \<open>
  \<^verbatim>\<open>Trace.__eq__\<close> of obspy: equal headers and \<^verbatim>\<open>np.array_equal\<close> sample arrays.
  Floats compare with \<^verbatim>\<open>==\<close>, so a NaN makes a trace differ from every trace.
\<close>

definition array_equal :: "npfloat list \<Rightarrow> npfloat list \<Rightarrow> bool" where
  "array_equal xs ys = (length xs = length ys \<and> list_all2 np_eq xs ys)"

definition trace_eq :: "trace \<Rightarrow> trace \<Rightarrow> bool" where
  "trace_eq t u =
     (channel_id (wave t) = channel_id (wave u) \<and>
      np_eq (sampling_rate (wave t)) (sampling_rate (wave u)) \<and>
      np_eq (starttime (wave t)) (starttime (wave u)) \<and>
      processing_parameters t = processing_parameters u \<and>
      array_equal (data (wave t)) (data (wave u)))"

text \<open>
  \<^verbatim>\<open>Stream.remove(trace)\<close> is \<^verbatim>\<open>self.traces.remove(trace)\<close>: the first item that
  is the trace or equals it is deleted; with no such item the list raises ValueError.
\<close>

fun list_remove :: "(addr \<Rightarrow> trace) \<Rightarrow> addr \<Rightarrow> addr list \<Rightarrow> error + addr list" where
  "list_remove h a [] = Inl ValueError"
| "list_remove h a (b # bs) =
     (if b = a \<or> trace_eq (h b) (h a) then Inr bs
      else case list_remove h a bs of
             Inl e \<Rightarrow> Inl e
           | Inr bs' \<Rightarrow> Inr (b # bs'))"

definition stream_remove :: "addr \<Rightarrow> stream_state \<Rightarrow> error + stream_state" where
  "stream_remove a st =
     (case list_remove (heap st) a (traces st) of
        Inl e \<Rightarrow> Inl e
      | Inr ts \<Rightarrow> Inr (st\<lparr>traces := ts\<rparr>))"

text \<open>\<^verbatim>\<open>logging.info('Removing trace: %s (failed SNR check)' % tr)\<close>.\<close>

definition logging_info :: "addr \<Rightarrow> stream_state \<Rightarrow> stream_state" where
  "logging_info a st = st\<lparr>logged := logged st @ [Removing_trace (wave (heap st a))]\<rparr>"

text \<open>
  Modelled from the spec: \<^verbatim>\<open>_update_params\<close> of \<^verbatim>\<open>gmprocess.utils\<close>, which is not
  among the sources. The spec has the record's processing parameters as a mutable map
  keyed by stage name, holding the stage's output, and reading a stage back yields the
  values passed in: the call stores the dictionary under the stage name and returns the
  trace.
\<close>

definition update_params :: "trace \<Rightarrow> string \<Rightarrow> (string \<rightharpoonup> pvalue) \<Rightarrow> trace" where
  "update_params tr process_type parameters =
     tr\<lparr>processing_parameters := (processing_parameters tr)(process_type \<mapsto> parameters)\<rparr>"

text \<open>The dictionary literal both pickers attach.\<close>

definition corner_dict :: "string \<Rightarrow> npfloat \<Rightarrow> npfloat \<Rightarrow> (string \<rightharpoonup> pvalue)" where
  "corner_dict ty hp lp =
     [''type'' \<mapsto> Str ty, ''highpass'' \<mapsto> Num hp, ''lowpass'' \<mapsto> Num lp]"

text \<open>The trace object at \<open>a\<close> is mutated in place.\<close>

definition attach :: "addr \<Rightarrow> (string \<rightharpoonup> pvalue) \<Rightarrow> stream_state \<Rightarrow> stream_state" where
  "attach a d st =
     st\<lparr>heap := (heap st)(a := update_params (heap st a) ''corner_frequencies'' d)\<rparr>"

subsection \<open>The constant picker\<close>

text \<open>
  \<^verbatim>\<open>CONFIG\<close> is loaded by \<^verbatim>\<open>gmprocess.config.get_config\<close>, which is not among the
  sources; it is a parameter, a dictionary of dictionaries. \<^verbatim>\<open>CONFIG['corner_frequencies']\<close>
  is read before the loop, the two values inside it. The loop runs over
  \<^verbatim>\<open>Stream.__iter__\<close>, which is an iterator of \<^verbatim>\<open>list(self.traces)\<close>.
  The source's name \<^verbatim>\<open>constant\<close> is a keyword of Isabelle, hence \<open>constant_picker\<close>.
\<close>

type_synonym config = "string \<rightharpoonup> (string \<rightharpoonup> (string \<rightharpoonup> npfloat))"

fun constant_loop ::
  "(string \<rightharpoonup> (string \<rightharpoonup> npfloat)) \<Rightarrow> addr list \<Rightarrow> stream_state \<Rightarrow> error + stream_state" where
  "constant_loop cf_config [] st = Inr st"
| "constant_loop cf_config (a # as) st =
     (case cf_config ''constant'' of
        None \<Rightarrow> Inl KeyError
      | Some c \<Rightarrow>
          (case c ''highpass'' of
             None \<Rightarrow> Inl KeyError
           | Some hp \<Rightarrow>
               (case c ''lowpass'' of
                  None \<Rightarrow> Inl KeyError
                | Some lp \<Rightarrow>
                    constant_loop cf_config as (attach a (corner_dict ''constant'' hp lp) st))))"

definition constant_picker :: "config \<Rightarrow> stream_state \<Rightarrow> error + stream_state" where
  "constant_picker CONFIG st =
     (case CONFIG ''corner_frequencies'' of
        None \<Rightarrow> Inl KeyError
      | Some cf_config \<Rightarrow> constant_loop cf_config (traces st) st)"

subsection \<open>The FFT size and the spectral estimate\<close>

text \<open>
  The calls into obspy, numpy and the C library that are taken as parameters:
  \<^verbatim>\<open>Trace.trim(starttime, endtime)\<close> and \<^verbatim>\<open>Trace.taper(0.05, 'hann', 'both')\<close> on a
  copy of the trace (they read and write the samples and the header, not the processing
  parameters), \<^verbatim>\<open>abs(np.fft.rfft(data, n))\<close>,
  \<^verbatim>\<open>konno_ohmachi_smoothing(spectra, frequencies, bandwidth)\<close>, and the exponent
  \<^verbatim>\<open>ceil(log(i) / log(2))\<close> that \<^verbatim>\<open>next_pow_2\<close> computes in float64 for \<open>i \<ge> 1\<close>
  (the library logarithm is not an operation IEEE 754 defines).
\<close>

record numerics =
  trim :: "waveform \<Rightarrow> pvalue option \<Rightarrow> pvalue option \<Rightarrow> waveform"
  taper :: "waveform \<Rightarrow> waveform"
  rfft_abs :: "npfloat list \<Rightarrow> nat \<Rightarrow> npfloat list"
  konno_ohmachi_smoothing :: "npfloat list \<Rightarrow> npfloat list \<Rightarrow> npfloat \<Rightarrow> npfloat list"
  log2_ceil :: "nat \<Rightarrow> nat"

text \<open>
  \<^verbatim>\<open>next_pow_2\<close> of \<^verbatim>\<open>obspy.signal.util\<close> returns
  \<^verbatim>\<open>int(pow(2, ceil(log(i) / log(2))))\<close>; \<^verbatim>\<open>log(0)\<close> is a ValueError.
\<close>

definition next_pow_2 :: "numerics \<Rightarrow> nat \<Rightarrow> error + nat" where
  "next_pow_2 ext i = (if i = 0 then Inl ValueError else Inr (2 ^ log2_ceil ext i))"

text \<open>
  The exact exponent, the least \<open>k\<close> with \<open>i \<le> 2 ^ k\<close>, for comparison. The float64
  exponent is not always this one: at \<open>2 ^ 29\<close> the float64 quotient is
  29.000000000000004 and its ceiling is 30.
\<close>

fun ceil_log2 :: "nat \<Rightarrow> nat" where
  "ceil_log2 i = (if i \<le> 1 then 0 else Suc (ceil_log2 ((i + 1) div 2)))"

text \<open>Line 81: \<^verbatim>\<open>nfft = max(next_pow_2(signal.stats.npts), next_pow_2(noise.stats.npts))\<close>.\<close>

definition snr_nfft :: "numerics \<Rightarrow> nat \<Rightarrow> nat \<Rightarrow> error + nat" where
  "snr_nfft ext signal_npts noise_npts =
     (case next_pow_2 ext signal_npts of
        Inl e \<Rightarrow> Inl e
      | Inr ps \<Rightarrow>
          (case next_pow_2 ext noise_npts of
             Inl e \<Rightarrow> Inl e
           | Inr pn \<Rightarrow> Inr (max ps pn)))"

text \<open>
  \<^verbatim>\<open>np.fft.rfftfreq(n, d)\<close>: \<^verbatim>\<open>val = 1.0/(n*d)\<close>, \<^verbatim>\<open>N = n//2 + 1\<close>,
  \<^verbatim>\<open>arange(0, N) * val\<close>. Both \<open>n\<close> and \<open>d\<close> are Python numbers here, so a zero
  product raises. Each of the three operations rounds.
\<close>

definition rfftfreq :: "nat \<Rightarrow> npfloat \<Rightarrow> error + npfloat list" where
  "rfftfreq n d =
     (case py_div (Fin 1) (fl_mul (Fin (real n)) d) of
        Inl e \<Rightarrow> Inl e
      | Inr val \<Rightarrow> Inr (map (\<lambda>k. fl_mul (Fin (real k)) val) [0 ..< n div 2 + 1]))"

text \<open>
  \<^verbatim>\<open>fft_smooth(trace, nfft)\<close>, lines 155 to 177. \<^verbatim>\<open>np.fft.rfft\<close> refuses a
  transform length below one. The smoothing is called with the literal 20.
\<close>

definition fft_smooth :: "numerics \<Rightarrow> waveform \<Rightarrow> nat \<Rightarrow> error + (npfloat list \<times> npfloat list)" where
  "fft_smooth ext trace nfft =
     (if nfft < 1 then Inl ValueError
      else
        let spec = map (\<lambda>x. np_div x (Fin (real nfft))) (rfft_abs ext (data trace) nfft) in
        (case py_div (Fin 1) (sampling_rate trace) of
           Inl e \<Rightarrow> Inl e
         | Inr d \<Rightarrow>
             (case rfftfreq nfft d of
                Inl e \<Rightarrow> Inl e
              | Inr freqs \<Rightarrow>
                  Inr (konno_ohmachi_smoothing ext spec freqs (Fin 20), freqs))))"

text \<open>
  \<^verbatim>\<open>sig_spec_smooth -= noise_spec_smooth\<close> on one-dimensional arrays: the right-hand
  side has the length of the left-hand side or length one (broadcast), else numpy raises
  ValueError.
\<close>

definition np_isub :: "npfloat list \<Rightarrow> npfloat list \<Rightarrow> error + npfloat list" where
  "np_isub xs ys =
     (if length ys = length xs then Inr (map (\<lambda>(x, y). np_sub x y) (zip xs ys))
      else if length ys = 1 then Inr (map (\<lambda>x. np_sub x (hd ys)) xs)
      else Inl ValueError)"

text \<open>
  Lines 66 to 89 of \<^verbatim>\<open>snr\<close>: the frequency grid of the signal window, the smoothed
  signal spectrum with the noise spectrum subtracted, and the smoothed noise spectrum.
\<close>

definition snr_spectra ::
  "numerics \<Rightarrow> trace \<Rightarrow> error + (npfloat list \<times> npfloat list \<times> npfloat list)" where
  "snr_spectra ext tr =
     (case processing_parameters tr ''signal_split'' of
        None \<Rightarrow> Inl KeyError
      | Some signal_split \<Rightarrow>
     (case signal_split ''split_time'' of
        None \<Rightarrow> Inl KeyError
      | Some split_time \<Rightarrow>
     (let noise = taper ext (trim ext (wave tr) None (Some split_time));
          signal = taper ext (trim ext (wave tr) (Some split_time) None) in
     (case snr_nfft ext (npts signal) (npts noise) of
        Inl e \<Rightarrow> Inl e
      | Inr nfft \<Rightarrow>
     (case fft_smooth ext signal nfft of
        Inl e \<Rightarrow> Inl e
      | Inr (sig_spec_smooth, freqs_signal) \<Rightarrow>
     (case fft_smooth ext noise nfft of
        Inl e \<Rightarrow> Inl e
      | Inr (noise_spec_smooth, freqs_noise) \<Rightarrow>
     (case np_isub sig_spec_smooth noise_spec_smooth of
        Inl e \<Rightarrow> Inl e
      | Inr sig_spec_denoised \<Rightarrow>
          Inr (freqs_signal, sig_spec_denoised, noise_spec_smooth))))))))"

subsection \<open>The corner scan\<close>

text \<open>The two ratio tests of lines 97 and 104.\<close>

definition ratio_ge :: "npfloat \<Rightarrow> npfloat \<Rightarrow> npfloat \<Rightarrow> bool" where
  "ratio_ge s n threshold = np_ge (np_div s n) threshold"

definition ratio_lt :: "npfloat \<Rightarrow> npfloat \<Rightarrow> npfloat \<Rightarrow> bool" where
  "ratio_lt s n threshold = np_lt (np_div s n) threshold"

text \<open>
  Lines 95 to 108: the loop over \<^verbatim>\<open>enumerate(freqs_signal)\<close>. The accumulator is
  \<open>(lows, highs, have_low)\<close>; an index beyond either spectrum is an IndexError.
\<close>

fun scan_loop ::
  "nat \<Rightarrow> npfloat list \<Rightarrow> npfloat list \<Rightarrow> npfloat list \<Rightarrow> npfloat \<Rightarrow>
   npfloat list \<times> npfloat list \<times> bool \<Rightarrow> error + (npfloat list \<times> npfloat list \<times> bool)" where
  "scan_loop idx [] sig_spec noise_spec threshold acc = Inr acc"
| "scan_loop idx (freq # fs) sig_spec noise_spec threshold (lows, highs, have_low) =
     (if length sig_spec \<le> idx \<or> length noise_spec \<le> idx then Inl IndexError
      else if \<not> have_low then
        (if ratio_ge (sig_spec ! idx) (noise_spec ! idx) threshold
         then scan_loop (Suc idx) fs sig_spec noise_spec threshold (lows @ [freq], highs, True)
         else scan_loop (Suc idx) fs sig_spec noise_spec threshold (lows, highs, have_low))
      else
        (if ratio_lt (sig_spec ! idx) (noise_spec ! idx) threshold
         then scan_loop (Suc idx) fs sig_spec noise_spec threshold (lows, highs @ [freq], False)
         else scan_loop (Suc idx) fs sig_spec noise_spec threshold (lows, highs, have_low)))"

text \<open>Lines 117 and 118 (and again 129 and 130): close a band left open.\<close>

definition close_band :: "npfloat list \<Rightarrow> npfloat list \<Rightarrow> npfloat list \<Rightarrow> error + npfloat list" where
  "close_band freqs_signal lows highs =
     (if length lows > length highs
      then (case py_max freqs_signal of
              Inl e \<Rightarrow> Inl e
            | Inr m \<Rightarrow> Inr (highs @ [m]))
      else Inr highs)"

text \<open>
  Lines 122 to 126 (and again 134 to 138): the loop over \<^verbatim>\<open>enumerate(lows)\<close>. The
  accumulator is \<open>found_valid\<close> and the pair \<open>(low_corner, high_corner)\<close>, unbound at
  first. \<^verbatim>\<open>and\<close> reads \<^verbatim>\<open>highs[idx]\<close> only when the first test holds.
\<close>

fun select_loop ::
  "nat \<Rightarrow> npfloat list \<Rightarrow> npfloat list \<Rightarrow> npfloat \<Rightarrow> npfloat \<Rightarrow>
   bool \<times> (npfloat \<times> npfloat) option \<Rightarrow> error + (bool \<times> (npfloat \<times> npfloat) option)" where
  "select_loop idx [] highs max_low_freq min_high_freq acc = Inr acc"
| "select_loop idx (val # vs) highs max_low_freq min_high_freq acc =
     (if np_le val max_low_freq then
        (if length highs \<le> idx then Inl IndexError
         else if np_gt (highs ! idx) min_high_freq
         then select_loop (Suc idx) vs highs max_low_freq min_high_freq
                (True, Some (val, highs ! idx))
         else select_loop (Suc idx) vs highs max_low_freq min_high_freq acc)
      else select_loop (Suc idx) vs highs max_low_freq min_high_freq acc)"

text \<open>The two ways a trace leaves the loop body: lines 112 and 113 (150 and 151), and 141.\<close>

definition reject :: "addr \<Rightarrow> stream_state \<Rightarrow> error + stream_state" where
  "reject a st = stream_remove a (logging_info a st)"

definition accept :: "addr \<Rightarrow> npfloat \<Rightarrow> npfloat \<Rightarrow> stream_state \<Rightarrow> stream_state" where
  "accept a low_corner high_corner st = attach a (corner_dict ''snr'' low_corner high_corner) st"

text \<open>
  Lines 92 to 151 for the trace at \<open>a\<close>, given its frequency grid and the two spectra.
  The source holds the closing step and the selection loop twice; \<open>found_valid\<close> is
  reset in between, the pair is not.
\<close>

definition snr_decide ::
  "addr \<Rightarrow> npfloat list \<Rightarrow> npfloat list \<Rightarrow> npfloat list \<Rightarrow> npfloat \<Rightarrow> npfloat \<Rightarrow> npfloat \<Rightarrow>
   stream_state \<Rightarrow> error + stream_state" where
  "snr_decide a freqs_signal sig_spec noise_spec threshold max_low_freq min_high_freq st =
     (case scan_loop 0 freqs_signal sig_spec noise_spec threshold ([], [], False) of
        Inl e \<Rightarrow> Inl e
      | Inr (lows, highs, have_low) \<Rightarrow>
     (if lows = [] then reject a st
      else
     (case close_band freqs_signal lows highs of
        Inl e \<Rightarrow> Inl e
      | Inr highs1 \<Rightarrow>
     (case select_loop 0 lows highs1 max_low_freq min_high_freq (False, None) of
        Inl e \<Rightarrow> Inl e
      | Inr (found1, corners1) \<Rightarrow>
     (case close_band freqs_signal lows highs1 of
        Inl e \<Rightarrow> Inl e
      | Inr highs2 \<Rightarrow>
     (case select_loop 0 lows highs2 max_low_freq min_high_freq (False, corners1) of
        Inl e \<Rightarrow> Inl e
      | Inr (found_valid, corners) \<Rightarrow>
     (if found_valid then
        (case corners of
           None \<Rightarrow> Inl UnboundLocalError
         | Some (low_corner, high_corner) \<Rightarrow> Inr (accept a low_corner high_corner st))
      else reject a st)))))))"

subsection \<open>The SNR picker\<close>

text \<open>The body of the loop of \<^verbatim>\<open>snr\<close> for the trace at \<open>a\<close>, lines 66 to 151.\<close>

definition snr_body ::
  "numerics \<Rightarrow> addr \<Rightarrow> npfloat \<Rightarrow> npfloat \<Rightarrow> npfloat \<Rightarrow> stream_state \<Rightarrow> error + stream_state" where
  "snr_body ext a threshold max_low_freq min_high_freq st =
     (case snr_spectra ext (heap st a) of
        Inl e \<Rightarrow> Inl e
      | Inr (freqs_signal, sig_spec, noise_spec) \<Rightarrow>
          snr_decide a freqs_signal sig_spec noise_spec threshold max_low_freq min_high_freq st)"

text \<open>
  \<^verbatim>\<open>for tr in st\<close>: \<^verbatim>\<open>Stream.__iter__\<close> of obspy returns an iterator of
  \<^verbatim>\<open>list(self.traces)\<close>, a copy of the list of references made when the loop starts.
  The loop runs over that copy while the body works on the live state.
\<close>

fun snr_loop ::
  "numerics \<Rightarrow> addr list \<Rightarrow> npfloat \<Rightarrow> npfloat \<Rightarrow> npfloat \<Rightarrow> stream_state \<Rightarrow> error + stream_state" where
  "snr_loop ext [] threshold max_low_freq min_high_freq st = Inr st"
| "snr_loop ext (a # as) threshold max_low_freq min_high_freq st =
     (case snr_body ext a threshold max_low_freq min_high_freq st of
        Inl e \<Rightarrow> Inl e
      | Inr st' \<Rightarrow> snr_loop ext as threshold max_low_freq min_high_freq st')"

text \<open>\<^verbatim>\<open>snr(st, threshold, max_low_freq, min_high_freq, bandwidth)\<close>.\<close>

definition snr ::
  "numerics \<Rightarrow> stream_state \<Rightarrow> npfloat \<Rightarrow> npfloat \<Rightarrow> npfloat \<Rightarrow> npfloat \<Rightarrow> error + stream_state" where
  "snr ext st threshold max_low_freq min_high_freq bandwidth =
     snr_loop ext (traces st) threshold max_low_freq min_high_freq st"

subsection \<open>The selection rule in the words of the specification\<close>

text \<open>
  A candidate pair is valid when its low corner is at most the largest admissible low
  frequency and its high corner is above the smallest admissible high frequency; among
  the valid pairs the one found last is selected.
\<close>

definition spec_valid_pair :: "npfloat \<Rightarrow> npfloat \<Rightarrow> npfloat \<times> npfloat \<Rightarrow> bool" where
  "spec_valid_pair max_low_freq min_high_freq p =
     (np_le (fst p) max_low_freq \<and> np_gt (snd p) min_high_freq)"

definition spec_select ::
  "npfloat \<Rightarrow> npfloat \<Rightarrow> (npfloat \<times> npfloat) list \<Rightarrow> (npfloat \<times> npfloat) option" where
  "spec_select max_low_freq min_high_freq pairs =
     (case filter (spec_valid_pair max_low_freq min_high_freq) pairs of
        [] \<Rightarrow> None
      | p # ps \<Rightarrow> Some (last (p # ps)))"

subsection \<open>The outcome of a trace as a value\<close>

text \<open>
  What lines 92 to 138 decide for given spectra, read off the scan: an exception, no
  qualifying band, or the selected pair; then the same for a trace, through its spectra;
  and the trace as \<^verbatim>\<open>snr\<close> leaves it when it keeps it. The lemmas below relate these
  to \<open>snr_decide\<close> and \<open>snr_body\<close>.
\<close>

definition snr_corners ::
  "npfloat list \<Rightarrow> npfloat list \<Rightarrow> npfloat list \<Rightarrow> npfloat \<Rightarrow> npfloat \<Rightarrow> npfloat \<Rightarrow>
   error + (npfloat \<times> npfloat) option" where
  "snr_corners freqs_signal sig_spec noise_spec threshold max_low_freq min_high_freq =
     (case scan_loop 0 freqs_signal sig_spec noise_spec threshold ([], [], False) of
        Inl e \<Rightarrow> Inl e
      | Inr (lows, highs, have_low) \<Rightarrow>
          if lows = [] then Inr None
          else (case close_band freqs_signal lows highs of
                  Inl e \<Rightarrow> Inl e
                | Inr highs1 \<Rightarrow> Inr (spec_select max_low_freq min_high_freq (zip lows highs1))))"

definition snr_outcome ::
  "numerics \<Rightarrow> npfloat \<Rightarrow> npfloat \<Rightarrow> npfloat \<Rightarrow> trace \<Rightarrow> error + (npfloat \<times> npfloat) option" where
  "snr_outcome ext threshold max_low_freq min_high_freq tr =
     (case snr_spectra ext tr of
        Inl e \<Rightarrow> Inl e
      | Inr (freqs_signal, sig_spec, noise_spec) \<Rightarrow>
          snr_corners freqs_signal sig_spec noise_spec threshold max_low_freq min_high_freq)"

definition snr_annotated :: "numerics \<Rightarrow> npfloat \<Rightarrow> npfloat \<Rightarrow> npfloat \<Rightarrow> trace \<Rightarrow> trace" where
  "snr_annotated ext threshold max_low_freq min_high_freq tr =
     (case snr_outcome ext threshold max_low_freq min_high_freq tr of
        Inr (Some p) \<Rightarrow> update_params tr ''corner_frequencies'' (corner_dict ''snr'' (fst p) (snd p))
      | _ \<Rightarrow> tr)"

subsection \<open>Example inputs\<close>


definition example_window :: "nat \<Rightarrow> waveform" where
  "example_window n =
     \<lparr>channel_id = ''HN1'', sampling_rate = Fin 100, starttime = Fin 0,
      data = replicate n (Fin 1)\<rparr>"

definition example_constant :: "string \<rightharpoonup> npfloat" where
  "example_constant = [''highpass'' \<mapsto> Fin 0.08, ''lowpass'' \<mapsto> Fin 20]"

definition example_cf_config :: "string \<rightharpoonup> (string \<rightharpoonup> npfloat)" where
  "example_cf_config = [''constant'' \<mapsto> example_constant]"

definition example_config :: config where
  "example_config = [''corner_frequencies'' \<mapsto> example_cf_config]"

definition example_trace :: trace where
  "example_trace =
     \<lparr>wave = \<lparr>channel_id = ''HN1'', sampling_rate = Fin 100, starttime = Fin 0,
               data = [Fin 1, Fin 2]\<rparr>,
      processing_parameters = Map.empty\<rparr>"

definition example_stream :: stream_state where
  "example_stream = \<lparr>heap = (\<lambda>a. example_trace), traces = [0, 1], logged = []\<rparr>"

text \<open>
  Collaborators that cut a trace of four samples into a noise window of the first two
  and a signal window of the last two, pass the samples on as the magnitude spectrum and
  do not smooth; a stream of a trace whose signal stands out and one whose does not.
\<close>

definition split_numerics :: numerics where
  "split_numerics =
     \<lparr>trim = (\<lambda>w t1 t2. case t1 of None \<Rightarrow> w\<lparr>data := take 2 (data w)\<rparr>
                                    | Some t \<Rightarrow> w\<lparr>data := drop 2 (data w)\<rparr>),
      taper = (\<lambda>w. w),
      rfft_abs = (\<lambda>d n. take (n div 2 + 1) d),
      konno_ohmachi_smoothing = (\<lambda>spec freqs b. spec),
      log2_ceil = ceil_log2\<rparr>"

definition split_trace :: "real \<Rightarrow> trace" where
  "split_trace x =
     \<lparr>wave = \<lparr>channel_id = ''HN1'', sampling_rate = Fin 100, starttime = Fin 0,
               data = [Fin 1, Fin 1, Fin x, Fin x]\<rparr>,
      processing_parameters = [''signal_split'' \<mapsto> [''split_time'' \<mapsto> Num (Fin 0.02)]]\<rparr>"

definition split_stream :: stream_state where
  "split_stream =
     \<lparr>heap = (\<lambda>a. if a = 0 then split_trace 9 else split_trace 1), traces = [0, 1], logged = []\<rparr>"





text \<open>
  The step of the frequency grid as \<^verbatim>\<open>fft_smooth\<close> computes it for FFT size \<open>n\<close>
  and sampling rate \<open>r\<close>: \<^verbatim>\<open>1.0 / (n * (1 / r))\<close>, three rounded operations.
\<close>

definition grid_step :: "nat \<Rightarrow> real \<Rightarrow> real" where
  "grid_step n r = fl64 (1 / fl64 (real n * fl64 (1 / r)))"

section \<open>Properties\<close>

subsection \<open>Rounding\<close>

lemma fl64_zero: "fl64 0 = 0"
  by (simp add: fl64_def)

lemma round_half_even_of_int: "round_half_even (of_int m) = m"
  by (simp add: round_half_even_def)

lemma fl64_scaled:
  assumes "2 ^ 52 \<le> \<bar>x\<bar> * 2 ^ k" and "\<bar>x\<bar> * 2 ^ k < 2 ^ 53"
  shows "fl64 x = of_int (round_half_even (x * 2 ^ k)) / 2 ^ k"
proof -
  from assms(1) have nz: "x \<noteq> 0" by auto
  then have pos: "0 < \<bar>x\<bar>" by simp
  have p: "(2::real) powr (52 - real k) = 2 ^ 52 / 2 ^ k"
    using powr_realpow [of 2 52] by (simp add: powr_diff powr_realpow)
  have p1: "(2::real) powr (53 - real k) = 2 ^ 53 / 2 ^ k"
    using powr_realpow [of 2 53] by (simp add: powr_diff powr_realpow)
  have lo: "2 powr (of_int (52 - int k)) \<le> \<bar>x\<bar>"
    using assms(1) by (simp add: p pos_divide_le_eq)
  have hi: "\<bar>x\<bar> < 2 powr (of_int (52 - int k) + 1)"
    using assms(2) by (simp add: p1 pos_less_divide_eq)
  from lo hi pos have e: "\<lfloor>log 2 \<bar>x\<bar>\<rfloor> = 52 - int k"
    by (simp add: floor_log_eq_powr_iff)
  have u: "(2::real) powr (- real k) = 1 / 2 ^ k"
    by (simp add: powr_minus powr_realpow inverse_eq_divide)
  show ?thesis
    using nz by (simp add: fl64_def e u Let_def)
qed

lemma fl64_nonzero:
  assumes "x \<noteq> 0"
  shows "fl64 x \<noteq> 0"
proof -
  let ?e = "\<lfloor>log 2 \<bar>x\<bar>\<rfloor>"
  let ?u = "(2::real) powr (of_int ?e - 52)"
  from assms have pos: "0 < \<bar>x\<bar>" by simp
  have upos: "0 < ?u" by simp
  have "2 powr (of_int ?e) \<le> \<bar>x\<bar>"
    using pos floor_log_eq_powr_iff [of "\<bar>x\<bar>" 2 ?e] by simp
  then have "2 powr (of_int ?e) / ?u \<le> \<bar>x\<bar> / ?u"
    using upos by (simp add: divide_right_mono)
  moreover have "2 powr (of_int ?e) / ?u = 2 powr 52"
    by (simp add: powr_diff [symmetric])
  moreover have "(2::real) powr 52 = 2 ^ 52"
    using powr_realpow [of 2 52] by simp
  ultimately have "(2::real) ^ 52 \<le> \<bar>x\<bar> / ?u" by (simp only:)
  moreover have "(1::real) \<le> 2 ^ 52" by simp
  ultimately have "1 \<le> \<bar>x\<bar> / ?u" by (rule order_trans [rotated])
  moreover have "\<bar>x / ?u\<bar> = \<bar>x\<bar> / ?u" by simp
  ultimately have big0: "1 \<le> \<bar>x / ?u\<bar>" by (simp only:)
  define y where "y = x / ?u"
  from big0 have big: "1 \<le> \<bar>y\<bar>" by (simp only: y_def)
  have "round_half_even y \<noteq> 0"
  proof (cases "0 \<le> y")
    case True
    with big have "1 \<le> y" by linarith
    then have "1 \<le> \<lfloor>y\<rfloor>" by simp
    then have "round_half_even y = \<lfloor>y\<rfloor> \<or> round_half_even y = \<lfloor>y\<rfloor> + 1"
      by (simp add: round_half_even_def Let_def)
    with \<open>1 \<le> \<lfloor>y\<rfloor>\<close> show ?thesis by linarith
  next
    case False
    with big have le: "y \<le> - 1" by linarith
    then have f: "\<lfloor>y\<rfloor> \<le> - 1" by (simp add: floor_le_iff)
    show ?thesis
    proof (cases "\<lfloor>y\<rfloor> = - 1")
      case True
      have "of_int \<lfloor>y\<rfloor> \<le> y" by (rule of_int_floor_le)
      with True have "- 1 \<le> y" by simp
      with le have "y = of_int (- 1)" by simp
      then have "round_half_even y = - 1" by (simp only: round_half_even_of_int)
      then show ?thesis by simp
    next
      case False
      with f have f2: "\<lfloor>y\<rfloor> \<le> - 2" by linarith
      have "round_half_even y = \<lfloor>y\<rfloor> \<or> round_half_even y = \<lfloor>y\<rfloor> + 1"
        by (simp add: round_half_even_def Let_def)
      with f2 show ?thesis by linarith
    qed
  qed
  note r = this [unfolded y_def]
  from r upos assms show ?thesis by (simp add: fl64_def Let_def)
qed


subsection \<open>The FFT size\<close>

declare ceil_log2.simps [simp del]








subsection \<open>The bandwidth argument\<close>

text \<open>
  Claim C10. Two calls of \<^verbatim>\<open>snr\<close> that differ only in the bandwidth argument give
  the same result, an exception or a final state: the argument is never read, and
  \<^verbatim>\<open>fft_smooth\<close> passes the literal 20 to the smoothing.
\<close>

theorem snr_bandwidth_ignored:
  "snr ext st threshold max_low_freq min_high_freq bandwidth1 =
   snr ext st threshold max_low_freq min_high_freq bandwidth2"
  by (simp add: snr_def)

subsection \<open>The frequency grid\<close>

lemma rfftfreq_finite:
  assumes "0 < n" and "r \<noteq> 0"
  shows "rfftfreq n (Fin (fl64 (1 / r)))
           = Inr (map (\<lambda>k. Fin (fl64 (real k * grid_step n r))) [0 ..< n div 2 + 1])"
proof -
  from assms(2) have "fl64 (1 / r) \<noteq> 0" by (simp add: fl64_nonzero)
  with assms(1) have "real n * fl64 (1 / r) \<noteq> 0" by simp
  then have "fl64 (real n * fl64 (1 / r)) \<noteq> 0" by (rule fl64_nonzero)
  then show ?thesis
    by (simp add: rfftfreq_def py_div_def fl_mul_def grid_step_def)
qed







subsection \<open>The constant picker\<close>

lemma update_params_idem:
  "update_params (update_params tr k d) k d = update_params tr k d"
  by (simp add: update_params_def)

lemma constant_loop_result:
  assumes "cf_config ''constant'' = Some c" and "c ''highpass'' = Some hp"
    and "c ''lowpass'' = Some lp"
  shows "constant_loop cf_config as st =
    Inr (st\<lparr>heap := (\<lambda>a. if a \<in> set as
                            then update_params (heap st a) ''corner_frequencies''
                                   (corner_dict ''constant'' hp lp)
                            else heap st a)\<rparr>)"
proof (induction as arbitrary: st)
  case Nil
  show ?case by simp
next
  case (Cons a as)
  have "(attach a (corner_dict ''constant'' hp lp) st)
          \<lparr>heap := (\<lambda>b. if b \<in> set as
                         then update_params (heap (attach a (corner_dict ''constant'' hp lp) st) b)
                                ''corner_frequencies'' (corner_dict ''constant'' hp lp)
                         else heap (attach a (corner_dict ''constant'' hp lp) st) b)\<rparr>
      = st\<lparr>heap := (\<lambda>b. if b \<in> set (a # as)
                            then update_params (heap st b) ''corner_frequencies''
                                   (corner_dict ''constant'' hp lp)
                            else heap st b)\<rparr>"
    by (auto simp add: attach_def update_params_idem fun_eq_iff)
  with Cons [of "attach a (corner_dict ''constant'' hp lp) st"] assms
  show ?case by simp
qed

text \<open>
  Claim C9. With the two constant corners present in the configuration, \<^verbatim>\<open>constant\<close>
  returns normally on every stream, the empty one included: the list of traces and the
  log are as before, every trace of the stream carries under \<^verbatim>\<open>corner_frequencies\<close>
  the dictionary of type \<^verbatim>\<open>constant\<close> with exactly the configured highpass and lowpass,
  its waveform is untouched, and no other trace object changes.
\<close>

theorem constant_attaches_configured_corners:
  assumes "CONFIG ''corner_frequencies'' = Some cf_config"
    and "cf_config ''constant'' = Some c"
    and "c ''highpass'' = Some hp" and "c ''lowpass'' = Some lp"
  shows "\<exists>st'. constant_picker CONFIG st = Inr st'
      \<and> traces st' = traces st \<and> logged st' = logged st
      \<and> (\<forall>a \<in> set (traces st).
            processing_parameters (heap st' a) ''corner_frequencies''
              = Some [''type'' \<mapsto> Str ''constant'', ''highpass'' \<mapsto> Num hp, ''lowpass'' \<mapsto> Num lp]
          \<and> wave (heap st' a) = wave (heap st a))
      \<and> (\<forall>a. a \<notin> set (traces st) \<longrightarrow> heap st' a = heap st a)"
  using assms constant_loop_result [of cf_config c hp lp "traces st" st]
  by (simp add: constant_picker_def update_params_def corner_dict_def)

theorem constant_attaches_configured_corners_witness:
  "example_config ''corner_frequencies'' = Some example_cf_config
   \<and> example_cf_config ''constant'' = Some example_constant
   \<and> example_constant ''highpass'' = Some (Fin 0.08)
   \<and> example_constant ''lowpass'' = Some (Fin 20)
   \<and> (\<exists>st'. constant_picker example_config example_stream = Inr st'
      \<and> traces st' = [0, 1] \<and> logged st' = []
      \<and> processing_parameters (heap st' 0) ''corner_frequencies''
              = Some [''type'' \<mapsto> Str ''constant'', ''highpass'' \<mapsto> Num (Fin 0.08),
                      ''lowpass'' \<mapsto> Num (Fin 20)]
      \<and> processing_parameters (heap st' 1) ''corner_frequencies''
              = Some [''type'' \<mapsto> Str ''constant'', ''highpass'' \<mapsto> Num (Fin 0.08),
                      ''lowpass'' \<mapsto> Num (Fin 20)])"
proof -
  have p1: "example_config ''corner_frequencies'' = Some example_cf_config"
    by (simp add: example_config_def)
  have p2: "example_cf_config ''constant'' = Some example_constant"
    by (simp add: example_cf_config_def)
  have p3: "example_constant ''highpass'' = Some (Fin 0.08)"
    by (simp add: example_constant_def)
  have p4: "example_constant ''lowpass'' = Some (Fin 20)"
    by (simp add: example_constant_def)
  have t: "traces example_stream = [0, 1]" and l: "logged example_stream = []"
    by (simp_all add: example_stream_def)
  have "\<exists>st'. constant_picker example_config example_stream = Inr st'
      \<and> traces st' = traces example_stream \<and> logged st' = logged example_stream
      \<and> (\<forall>a \<in> set (traces example_stream).
            processing_parameters (heap st' a) ''corner_frequencies''
              = Some [''type'' \<mapsto> Str ''constant'', ''highpass'' \<mapsto> Num (Fin 0.08),
                      ''lowpass'' \<mapsto> Num (Fin 20)]
          \<and> wave (heap st' a) = wave (heap example_stream a))
      \<and> (\<forall>a. a \<notin> set (traces example_stream) \<longrightarrow> heap st' a = heap example_stream a)"
    using p1 p2 p3 p4
    by (rule constant_attaches_configured_corners
          [of example_config example_cf_config example_constant "Fin 0.08" "Fin 20" example_stream])
  then obtain st' where "constant_picker example_config example_stream = Inr st'"
    and "traces st' = traces example_stream" and "logged st' = logged example_stream"
    and "\<forall>a \<in> set (traces example_stream).
            processing_parameters (heap st' a) ''corner_frequencies''
              = Some [''type'' \<mapsto> Str ''constant'', ''highpass'' \<mapsto> Num (Fin 0.08),
                      ''lowpass'' \<mapsto> Num (Fin 20)]
          \<and> wave (heap st' a) = wave (heap example_stream a)"
    by blast
  with p1 p2 p3 p4 t l show ?thesis by simp
qed

subsection \<open>The corner scan\<close>

lemma scan_loop_lengths:
  "scan_loop idx fs sig_spec noise_spec threshold (lows, highs, have_low) = Inr (lows', highs', have_low')
   \<Longrightarrow> length lows = length highs + (if have_low then 1 else 0)
   \<Longrightarrow> length lows' = length highs' + (if have_low' then 1 else 0)"
proof (induction fs arbitrary: idx lows highs have_low)
  case Nil
  then show ?case by simp
next
  case (Cons f fs)
  from Cons.prems show ?case
    by (auto split: if_splits dest!: Cons.IH)
qed

lemma scan_loop_empty_grid:
  "scan_loop idx fs sig_spec noise_spec threshold ([], highs, False) = Inr (lows', highs', have_low')
   \<Longrightarrow> lows' \<noteq> [] \<Longrightarrow> fs \<noteq> []"
  by (cases fs) auto

lemma py_max_nonempty: "fs \<noteq> [] \<Longrightarrow> \<exists>m. py_max fs = Inr m"
  by (cases fs) auto

lemma select_loop_filter:
  "idx + length vs \<le> length highs \<Longrightarrow>
   select_loop idx vs highs max_low_freq min_high_freq acc =
     Inr (case spec_select max_low_freq min_high_freq (zip vs (drop idx highs)) of
            None \<Rightarrow> acc
          | Some p \<Rightarrow> (True, Some p))"
proof (induction vs arbitrary: idx acc)
  case Nil
  show ?case by (simp add: spec_select_def)
next
  case (Cons v vs)
  from Cons.prems have lt: "idx < length highs" and le: "Suc idx + length vs \<le> length highs"
    by simp_all
  have d: "drop idx highs = highs ! idx # drop (Suc idx) highs"
    using lt by (simp add: Cons_nth_drop_Suc)
  show ?case
    using lt Cons.IH [OF le]
    by (auto simp add: d spec_select_def spec_valid_pair_def split: list.splits)
qed


lemma close_band_after_scan:
  assumes "scan_loop 0 freqs sig_spec noise_spec threshold ([], [], False) = Inr (lows, highs, have_low)"
    and "lows \<noteq> []"
  shows "\<exists>m. py_max freqs = Inr m
           \<and> close_band freqs lows highs = Inr (if have_low then highs @ [m] else highs)
           \<and> length (if have_low then highs @ [m] else highs) = length lows"
proof -
  from assms have "freqs \<noteq> []" by (rule scan_loop_empty_grid)
  then obtain m where m: "py_max freqs = Inr m" using py_max_nonempty by blast
  from scan_loop_lengths [OF assms(1)]
  have len: "length lows = length highs + (if have_low then 1 else 0)" by simp
  from m len show ?thesis by (auto simp add: close_band_def)
qed

lemma close_band_closed: "length highs = length lows \<Longrightarrow> close_band freqs lows highs = Inr highs"
  by (simp add: close_band_def)

lemma snr_decide_select:
  assumes "scan_loop 0 freqs sig_spec noise_spec threshold ([], [], False) = Inr (lows, highs, have_low)"
    and "lows \<noteq> []"
  shows "\<exists>highs1. close_band freqs lows highs = Inr highs1 \<and> length highs1 = length lows
      \<and> snr_decide a freqs sig_spec noise_spec threshold max_low_freq min_high_freq st =
          (case spec_select max_low_freq min_high_freq (zip lows highs1) of
             None \<Rightarrow> reject a st
           | Some p \<Rightarrow> Inr (accept a (fst p) (snd p) st))"
proof -
  from close_band_after_scan [OF assms] obtain highs1
    where c: "close_band freqs lows highs = Inr highs1" and len: "length highs1 = length lows"
    by blast
  have sel: "\<And>acc. select_loop 0 lows highs1 max_low_freq min_high_freq acc =
     Inr (case spec_select max_low_freq min_high_freq (zip lows highs1) of
            None \<Rightarrow> acc
          | Some p \<Rightarrow> (True, Some p))"
    using select_loop_filter [of 0 lows highs1] len by simp
  have "snr_decide a freqs sig_spec noise_spec threshold max_low_freq min_high_freq st =
          (case spec_select max_low_freq min_high_freq (zip lows highs1) of
             None \<Rightarrow> reject a st
           | Some p \<Rightarrow> Inr (accept a (fst p) (snd p) st))"
    using assms c len
    by (simp add: snr_decide_def close_band_closed sel split: option.splits prod.splits)
  with c len show ?thesis by blast
qed

text \<open>
  Claim C1. When the scan of lines 95 to 108 has found a low corner, the candidate pairs
  are the lows zipped with the highs after the closing step, and a pair is valid when
  \<^verbatim>\<open>low <= max_low_freq and high > min_high_freq\<close>. When no pair is valid the trace is
  logged and removed. Otherwise the trace object gets, under \<^verbatim>\<open>corner_frequencies\<close>,
  the dictionary of type \<^verbatim>\<open>snr\<close> whose highpass and lowpass are the low and the high of
  the last valid pair in the order of discovery, and nothing else changes.
\<close>

theorem snr_decide_last_valid_pair:
  assumes "scan_loop 0 freqs sig_spec noise_spec threshold ([], [], False) = Inr (lows, highs, have_low)"
    and "lows \<noteq> []"
  shows "\<exists>highs1. close_band freqs lows highs = Inr highs1 \<and> length highs1 = length lows
      \<and> snr_decide a freqs sig_spec noise_spec threshold max_low_freq min_high_freq st =
          (case filter (\<lambda>(low, high). np_le low max_low_freq \<and> np_gt high min_high_freq)
                  (zip lows highs1) of
             [] \<Rightarrow>
               (case list_remove (heap st) a (traces st) of
                  Inl e \<Rightarrow> Inl e
                | Inr ts \<Rightarrow>
                    Inr (st\<lparr>traces := ts,
                            logged := logged st @ [Removing_trace (wave (heap st a))]\<rparr>))
           | p # ps \<Rightarrow>
               Inr (st\<lparr>heap := (heap st)
                      (a := (heap st a)\<lparr>processing_parameters :=
                              (processing_parameters (heap st a))
                                (''corner_frequencies'' \<mapsto>
                                   [''type'' \<mapsto> Str ''snr'',
                                    ''highpass'' \<mapsto> Num (fst (last (p # ps))),
                                    ''lowpass'' \<mapsto> Num (snd (last (p # ps)))])\<rparr>)\<rparr>))"
proof -
  from snr_decide_select [OF assms, of a max_low_freq min_high_freq st] obtain highs1
    where c: "close_band freqs lows highs = Inr highs1" and len: "length highs1 = length lows"
    and d: "snr_decide a freqs sig_spec noise_spec threshold max_low_freq min_high_freq st =
          (case spec_select max_low_freq min_high_freq (zip lows highs1) of
             None \<Rightarrow> reject a st
           | Some p \<Rightarrow> Inr (accept a (fst p) (snd p) st))"
    by blast
  have v: "spec_valid_pair max_low_freq min_high_freq
             = (\<lambda>(low, high). np_le low max_low_freq \<and> np_gt high min_high_freq)"
    by (auto simp add: spec_valid_pair_def fun_eq_iff)
  have rej: "reject a st =
               (case list_remove (heap st) a (traces st) of
                  Inl e \<Rightarrow> Inl e
                | Inr ts \<Rightarrow>
                    Inr (st\<lparr>traces := ts,
                            logged := logged st @ [Removing_trace (wave (heap st a))]\<rparr>))"
    by (simp add: reject_def stream_remove_def logging_info_def split: sum.splits)
  have acc: "\<And>low high. accept a low high st =
               st\<lparr>heap := (heap st)
                      (a := (heap st a)\<lparr>processing_parameters :=
                              (processing_parameters (heap st a))
                                (''corner_frequencies'' \<mapsto>
                                   [''type'' \<mapsto> Str ''snr'',
                                    ''highpass'' \<mapsto> Num low,
                                    ''lowpass'' \<mapsto> Num high])\<rparr>)\<rparr>"
    by (simp add: accept_def attach_def update_params_def corner_dict_def)
  from d have "snr_decide a freqs sig_spec noise_spec threshold max_low_freq min_high_freq st =
          (case filter (\<lambda>(low, high). np_le low max_low_freq \<and> np_gt high min_high_freq)
                  (zip lows highs1) of
             [] \<Rightarrow> reject a st
           | p # ps \<Rightarrow> Inr (accept a (fst (last (p # ps))) (snd (last (p # ps))) st))"
    by (simp add: spec_select_def v split: list.splits)
  then have "snr_decide a freqs sig_spec noise_spec threshold max_low_freq min_high_freq st =
          (case filter (\<lambda>(low, high). np_le low max_low_freq \<and> np_gt high min_high_freq)
                  (zip lows highs1) of
             [] \<Rightarrow>
               (case list_remove (heap st) a (traces st) of
                  Inl e \<Rightarrow> Inl e
                | Inr ts \<Rightarrow>
                    Inr (st\<lparr>traces := ts,
                            logged := logged st @ [Removing_trace (wave (heap st a))]\<rparr>))
           | p # ps \<Rightarrow>
               Inr (st\<lparr>heap := (heap st)
                      (a := (heap st a)\<lparr>processing_parameters :=
                              (processing_parameters (heap st a))
                                (''corner_frequencies'' \<mapsto>
                                   [''type'' \<mapsto> Str ''snr'',
                                    ''highpass'' \<mapsto> Num (fst (last (p # ps))),
                                    ''lowpass'' \<mapsto> Num (snd (last (p # ps)))])\<rparr>)\<rparr>))"
    by (simp only: rej acc)
  with c len show ?thesis by blast
qed

theorem snr_decide_last_valid_pair_witness:
  "scan_loop 0 [Fin 1, Fin 2, Fin 3, Fin 4, Fin 5] [Fin 5, Fin 0, Fin 5, Fin 5, Fin 0]
       [Fin 1, Fin 1, Fin 1, Fin 1, Fin 1] (Fin 3) ([], [], False)
     = Inr ([Fin 1, Fin 3], [Fin 2, Fin 5], False)
   \<and> [Fin 1, Fin 3] \<noteq> []
   \<and> np_le (Fin 1) (Fin 3) \<and> np_gt (Fin 2) (Fin 1)
   \<and> np_le (Fin 3) (Fin 3) \<and> np_gt (Fin 5) (Fin 1)
   \<and> snr_decide 0 [Fin 1, Fin 2, Fin 3, Fin 4, Fin 5] [Fin 5, Fin 0, Fin 5, Fin 5, Fin 0]
       [Fin 1, Fin 1, Fin 1, Fin 1, Fin 1] (Fin 3) (Fin 3) (Fin 1) example_stream
     = Inr (example_stream\<lparr>heap := (heap example_stream)
              (0 := (heap example_stream 0)\<lparr>processing_parameters :=
                      (processing_parameters (heap example_stream 0))
                        (''corner_frequencies'' \<mapsto>
                           [''type'' \<mapsto> Str ''snr'', ''highpass'' \<mapsto> Num (Fin 3),
                            ''lowpass'' \<mapsto> Num (Fin 5)])\<rparr>)\<rparr>)"
proof -
  have scan: "scan_loop 0 [Fin 1, Fin 2, Fin 3, Fin 4, Fin 5] [Fin 5, Fin 0, Fin 5, Fin 5, Fin 0]
       [Fin 1, Fin 1, Fin 1, Fin 1, Fin 1] (Fin 3) ([], [], False)
     = Inr ([Fin 1, Fin 3], [Fin 2, Fin 5], False)"
    by (simp add: ratio_ge_def ratio_lt_def np_ge_def)
  have ne: "[Fin 1, Fin 3] \<noteq> []" by simp
  have cb: "close_band [Fin 1, Fin 2, Fin 3, Fin 4, Fin 5] [Fin 1, Fin 3] [Fin 2, Fin 5]
              = Inr [Fin 2, Fin 5]"
    by (simp add: close_band_def)
  from snr_decide_last_valid_pair [OF scan ne, of 0 "Fin 3" "Fin 1" example_stream] cb
  have "snr_decide 0 [Fin 1, Fin 2, Fin 3, Fin 4, Fin 5] [Fin 5, Fin 0, Fin 5, Fin 5, Fin 0]
       [Fin 1, Fin 1, Fin 1, Fin 1, Fin 1] (Fin 3) (Fin 3) (Fin 1) example_stream
     = Inr (example_stream\<lparr>heap := (heap example_stream)
              (0 := (heap example_stream 0)\<lparr>processing_parameters :=
                      (processing_parameters (heap example_stream 0))
                        (''corner_frequencies'' \<mapsto>
                           [''type'' \<mapsto> Str ''snr'', ''highpass'' \<mapsto> Num (Fin 3),
                            ''lowpass'' \<mapsto> Num (Fin 5)])\<rparr>)\<rparr>)"
    by (simp add: np_gt_def)
  with scan show ?thesis by (simp add: np_gt_def)
qed

lemma np_ge_not_lt: "np_ge x t \<Longrightarrow> \<not> np_lt x t"
  by (cases x; cases t) (simp_all add: np_ge_def)

lemma ratio_ge_not_lt: "ratio_ge s n t \<Longrightarrow> \<not> ratio_lt s n t"
  by (simp add: ratio_ge_def ratio_lt_def np_ge_not_lt)

lemma scan_loop_stays_inside:
  "idx + length fs \<le> length sig_spec \<Longrightarrow> idx + length fs \<le> length noise_spec \<Longrightarrow>
   \<forall>i < length fs. ratio_ge (sig_spec ! (idx + i)) (noise_spec ! (idx + i)) threshold \<Longrightarrow>
   scan_loop idx fs sig_spec noise_spec threshold (lows, highs, True) = Inr (lows, highs, True)"
proof (induction fs arbitrary: idx)
  case Nil
  show ?case by simp
next
  case (Cons f fs)
  from Cons.prems(3) [rule_format, of 0]
  have "ratio_ge (sig_spec ! idx) (noise_spec ! idx) threshold"
    by simp
  then have here: "\<not> ratio_lt (sig_spec ! idx) (noise_spec ! idx) threshold"
    by (simp add: ratio_ge_not_lt)
  have rest: "\<forall>i < length fs. ratio_ge (sig_spec ! (Suc idx + i)) (noise_spec ! (Suc idx + i)) threshold"
  proof (intro allI impI)
    fix i assume "i < length fs"
    then have "Suc i < length (f # fs)" by simp
    with Cons.prems(3) have "ratio_ge (sig_spec ! (idx + Suc i)) (noise_spec ! (idx + Suc i)) threshold"
      by blast
    then show "ratio_ge (sig_spec ! (Suc idx + i)) (noise_spec ! (Suc idx + i)) threshold"
      by simp
  qed
  from Cons.prems(1,2) have "Suc idx + length fs \<le> length sig_spec"
    and "Suc idx + length fs \<le> length noise_spec" by simp_all
  from Cons.IH [OF this rest] here Cons.prems(1,2) show ?case by simp
qed

lemma scan_loop_all_pass:
  assumes "length (f # fs) \<le> length sig_spec" and "length (f # fs) \<le> length noise_spec"
    and "\<forall>i < length (f # fs). ratio_ge (sig_spec ! i) (noise_spec ! i) threshold"
  shows "scan_loop 0 (f # fs) sig_spec noise_spec threshold ([], [], False) = Inr ([f], [], True)"
proof -
  from assms(3) have first: "ratio_ge (sig_spec ! 0) (noise_spec ! 0) threshold" by auto
  have rest: "\<forall>i < length fs. ratio_ge (sig_spec ! (Suc 0 + i)) (noise_spec ! (Suc 0 + i)) threshold"
    using assms(3) by auto
  from assms(1,2) have "Suc 0 + length fs \<le> length sig_spec"
    and "Suc 0 + length fs \<le> length noise_spec" by simp_all
  from scan_loop_stays_inside [OF this rest, of "[f]" "[]"] first assms(1,2)
  show ?thesis by auto
qed

lemma foldl_py_max_finite:
  "foldl (\<lambda>m y. if np_gt y m then y else m) (Fin x) (map Fin rs) = Fin (fold max rs x)"
proof (induction rs arbitrary: x)
  case Nil
  show ?case by simp
next
  case (Cons r rs)
  show ?case
  proof (cases "x < r")
    case True
    then have "max r x = r" by simp
    with True Cons [of "max r x"] show ?thesis by (simp add: np_gt_def)
  next
    case False
    then have "max r x = x" by simp
    with False Cons [of "max r x"] show ?thesis by (simp add: np_gt_def)
  qed
qed

lemma py_max_finite:
  "rs \<noteq> [] \<Longrightarrow> py_max (map Fin rs) = Inr (Fin (Max (set rs)))"
  by (cases rs) (simp_all add: foldl_py_max_finite Max.set_eq_fold [symmetric])

lemma py_max_finite_value:
  "py_max freqs = Inr m \<Longrightarrow> freqs = map Fin rs \<Longrightarrow> m = Fin (Max (set rs))"
  using py_max_finite [of rs] by (cases rs) auto

text \<open>
  Claim C6. When the scan ends with more lows than highs, there is exactly one more, and
  the closing step appends the maximum of the frequency grid to the highs. When the
  ratio is at or above the threshold at every bin of a non-empty grid, the scan finds
  the single low corner at the first frequency of the grid and no high corner, and the
  closing step gives the maximum of the grid as the high corner. On a grid of finite
  values the maximum taken by \<^verbatim>\<open>max\<close> is the greatest value of the grid.
\<close>

theorem scan_band_closing:
  "(scan_loop 0 freqs sig_spec noise_spec threshold ([], [], False) = Inr (lows, highs, have_low)
      \<and> length highs < length lows
    \<longrightarrow> length lows = Suc (length highs)
      \<and> (\<exists>m. py_max freqs = Inr m \<and> close_band freqs lows highs = Inr (highs @ [m])
              \<and> (\<forall>rs. freqs = map Fin rs \<longrightarrow> m = Fin (Max (set rs)))))
   \<and> (freqs \<noteq> [] \<and> length freqs \<le> length sig_spec \<and> length freqs \<le> length noise_spec
      \<and> (\<forall>i < length freqs. ratio_ge (sig_spec ! i) (noise_spec ! i) threshold)
    \<longrightarrow> scan_loop 0 freqs sig_spec noise_spec threshold ([], [], False) = Inr ([hd freqs], [], True)
      \<and> (\<exists>m. py_max freqs = Inr m \<and> close_band freqs [hd freqs] [] = Inr [m]
              \<and> (\<forall>rs. freqs = map Fin rs \<longrightarrow> m = Fin (Max (set rs)))))"
proof (intro conjI impI)
  assume a: "scan_loop 0 freqs sig_spec noise_spec threshold ([], [], False) = Inr (lows, highs, have_low)
      \<and> length highs < length lows"
  then have scan: "scan_loop 0 freqs sig_spec noise_spec threshold ([], [], False) = Inr (lows, highs, have_low)"
    and lt: "length highs < length lows" by simp_all
  from scan_loop_lengths [OF scan]
  have len: "length lows = length highs + (if have_low then 1 else 0)" by simp
  with lt show "length lows = Suc (length highs)" by (simp split: if_splits)
  from lt have "lows \<noteq> []" by auto
  from close_band_after_scan [OF scan this] len lt obtain m
    where "py_max freqs = Inr m" and "close_band freqs lows highs = Inr (highs @ [m])"
    by (auto split: if_splits)
  then show "\<exists>m. py_max freqs = Inr m \<and> close_band freqs lows highs = Inr (highs @ [m])
              \<and> (\<forall>rs. freqs = map Fin rs \<longrightarrow> m = Fin (Max (set rs)))"
    using py_max_finite_value by blast
next
  assume a: "freqs \<noteq> [] \<and> length freqs \<le> length sig_spec \<and> length freqs \<le> length noise_spec
      \<and> (\<forall>i < length freqs. ratio_ge (sig_spec ! i) (noise_spec ! i) threshold)"
  then obtain f fs where f: "freqs = f # fs" by (cases freqs) auto
  with a scan_loop_all_pass [of f fs sig_spec noise_spec threshold]
  show "scan_loop 0 freqs sig_spec noise_spec threshold ([], [], False) = Inr ([hd freqs], [], True)"
    by simp
  from a obtain m where m: "py_max freqs = Inr m" using py_max_nonempty by blast
  then have "close_band freqs [hd freqs] [] = Inr [m]" by (simp add: close_band_def)
  with m show "\<exists>m. py_max freqs = Inr m \<and> close_band freqs [hd freqs] [] = Inr [m]
              \<and> (\<forall>rs. freqs = map Fin rs \<longrightarrow> m = Fin (Max (set rs)))"
    using py_max_finite_value by blast
qed

theorem scan_band_closing_witness:
  "scan_loop 0 [Fin 0, Fin 1, Fin 2] [Fin 5, Fin 5, Fin 5] [Fin 1, Fin 1, Fin 1] (Fin 3)
       ([], [], False) = Inr ([Fin 0], [], True)
   \<and> length ([] :: npfloat list) < length [Fin 0]
   \<and> ratio_ge (Fin 5) (Fin 1) (Fin 3)
   \<and> py_max [Fin 0, Fin 1, Fin 2] = Inr (Fin 2)
   \<and> close_band [Fin 0, Fin 1, Fin 2] [Fin 0] [] = Inr [Fin 2]"
proof -
  have r: "ratio_ge (Fin 5) (Fin 1) (Fin 3)"
    by (simp add: ratio_ge_def np_ge_def)
  have all: "\<forall>i < length [Fin 0, Fin 1, Fin 2].
               ratio_ge ([Fin 5, Fin 5, Fin 5] ! i) ([Fin 1, Fin 1, Fin 1] ! i) (Fin 3)"
    using r by (simp add: nth_Cons' less_Suc_eq)
  from all scan_band_closing [of "[Fin 0, Fin 1, Fin 2]" "[Fin 5, Fin 5, Fin 5]"
      "[Fin 1, Fin 1, Fin 1]" "Fin 3" "[Fin 0]" "[]" True]
  have scan: "scan_loop 0 [Fin 0, Fin 1, Fin 2] [Fin 5, Fin 5, Fin 5] [Fin 1, Fin 1, Fin 1] (Fin 3)
       ([], [], False) = Inr ([Fin 0], [], True)"
    by simp
  with scan_band_closing [of "[Fin 0, Fin 1, Fin 2]" "[Fin 5, Fin 5, Fin 5]"
      "[Fin 1, Fin 1, Fin 1]" "Fin 3" "[Fin 0]" "[]" True]
  obtain m where m: "py_max [Fin 0, Fin 1, Fin 2] = Inr m"
    and c: "close_band [Fin 0, Fin 1, Fin 2] [Fin 0] [] = Inr ([] @ [m])"
    and mx: "\<forall>rs. [Fin 0, Fin 1, Fin 2] = map Fin rs \<longrightarrow> m = Fin (Max (set rs))"
    by auto
  from mx [rule_format, of "[0, 1, 2]"] have "m = Fin 2" by simp
  with m c scan r show ?thesis by simp
qed

text \<open>
  Claim C5. The scenario of the specification: eleven bins from 0.0 to 1.0 Hz, a noise
  spectrum of 1.0 throughout, a de-noised signal spectrum of 5.0 at bins 2 to 6 and 0.0
  elsewhere, threshold 3.0, largest low frequency 0.3 and smallest high frequency 0.5.
  The trace gets the dictionary of type \<^verbatim>\<open>snr\<close> with highpass 0.2 and lowpass 0.7.
\<close>

theorem snr_decide_concrete_scenario:
  "snr_decide a
     [Fin 0, Fin 0.1, Fin 0.2, Fin 0.3, Fin 0.4, Fin 0.5, Fin 0.6, Fin 0.7, Fin 0.8, Fin 0.9, Fin 1]
     [Fin 0, Fin 0, Fin 5, Fin 5, Fin 5, Fin 5, Fin 5, Fin 0, Fin 0, Fin 0, Fin 0]
     [Fin 1, Fin 1, Fin 1, Fin 1, Fin 1, Fin 1, Fin 1, Fin 1, Fin 1, Fin 1, Fin 1]
     (Fin 3) (Fin 0.3) (Fin 0.5) st
   = Inr (st\<lparr>heap := (heap st)
            (a := (heap st a)\<lparr>processing_parameters :=
                     (processing_parameters (heap st a))
                       (''corner_frequencies'' \<mapsto>
                          [''type'' \<mapsto> Str ''snr'', ''highpass'' \<mapsto> Num (Fin 0.2),
                           ''lowpass'' \<mapsto> Num (Fin 0.7)])\<rparr>)\<rparr>)"
  by (simp add: snr_decide_def ratio_ge_def ratio_lt_def np_ge_def np_gt_def close_band_def
      accept_def attach_def corner_dict_def update_params_def)

subsection \<open>A noise amplitude of zero\<close>

lemma zero_noise_quotient:
  "np_div s (Fin 0) = (if np_gt s (Fin 0) then PInf else if np_lt s (Fin 0) then NInf else NaN)
   \<and> ratio_ge s (Fin 0) (Fin t) = np_gt s (Fin 0)
   \<and> ratio_lt s (Fin 0) (Fin t) = np_lt s (Fin 0)"
  by (cases s) (auto simp add: ratio_ge_def ratio_lt_def np_ge_def np_gt_def inf_of_sign_def)

lemma scan_loop_returns:
  "idx + length fs \<le> length sig_spec \<Longrightarrow> idx + length fs \<le> length noise_spec \<Longrightarrow>
   \<exists>r. scan_loop idx fs sig_spec noise_spec threshold acc = Inr r"
proof (induction fs arbitrary: idx acc)
  case Nil
  have "scan_loop idx [] sig_spec noise_spec threshold acc = Inr acc" by simp
  then show ?case by (rule exI)
next
  case (Cons f fs)
  obtain lows highs have_low where acc: "acc = (lows, highs, have_low)"
    by (metis prod_cases3)
  from Cons.prems have le: "Suc idx + length fs \<le> length sig_spec"
    "Suc idx + length fs \<le> length noise_spec" by simp_all
  from Cons.prems have here: "\<not> length sig_spec \<le> idx" "\<not> length noise_spec \<le> idx"
    by simp_all
  show ?case
    using Cons.IH [OF le] here by (simp add: acc)
qed

lemma snr_corners_returns:
  assumes "length freqs \<le> length sig_spec" and "length freqs \<le> length noise_spec"
  shows "\<exists>r. snr_corners freqs sig_spec noise_spec threshold max_low_freq min_high_freq = Inr r"
proof -
  from scan_loop_returns [of 0 freqs sig_spec noise_spec threshold "([], [], False)"] assms
  obtain r where "scan_loop 0 freqs sig_spec noise_spec threshold ([], [], False) = Inr r"
    by auto
  then obtain lows highs have_low
    where scan: "scan_loop 0 freqs sig_spec noise_spec threshold ([], [], False)
                   = Inr (lows, highs, have_low)"
    by (cases r) auto
  show ?thesis
  proof (cases "lows = []")
    case True
    with scan show ?thesis by (simp add: snr_corners_def)
  next
    case False
    from close_band_after_scan [OF scan False] obtain highs1
      where "close_band freqs lows highs = Inr highs1" by blast
    with scan False show ?thesis by (simp add: snr_corners_def)
  qed
qed

text \<open>
  Claim C3, as stated, fails: the division of lines 97 and 104 has no guard, and at a
  bin where the noise amplitude and the de-noised signal amplitude are both zero the
  ratio is NaN, not \<open>+\<infinity>\<close>; the bin does not pass the threshold, and a scan of that
  single bin finds no low corner.
\<close>

theorem zero_noise_bin_fails_counterexample:
  "np_div (Fin 0) (Fin 0) \<noteq> PInf \<and> \<not> ratio_ge (Fin 0) (Fin 0) (Fin 3)
   \<and> scan_loop 0 [Fin 0] [Fin 0] [Fin 0] (Fin 3) ([], [], False) = Inr ([], [], False)"
  by (simp add: ratio_ge_def np_ge_def inf_of_sign_def)

text \<open>
  Claim C3, amended. The division of the ratio test has no guard. At a bin whose noise
  amplitude is zero the ratio is the IEEE quotient: \<open>+\<infinity>\<close> when the de-noised signal
  amplitude is positive, \<open>-\<infinity>\<close> when it is negative, NaN when it is zero or NaN. Against
  a finite threshold the scan takes the bin as a low corner exactly when it is outside
  a band and the de-noised signal is positive, as a high corner exactly when it is
  inside a band and the de-noised signal is negative, and otherwise goes on to the next
  bin with its state unchanged; so it does at a bin where both amplitudes are zero.
  Nothing is raised: on a grid that both spectra cover the scan from that bin on, and
  the whole corner decision of lines 92 to 138, return normally.
\<close>

theorem zero_noise_bin_scan:
  assumes "idx < length sig_spec" and "idx < length noise_spec"
    and "noise_spec ! idx = Fin 0"
  shows "np_div (sig_spec ! idx) (noise_spec ! idx)
           = (if np_gt (sig_spec ! idx) (Fin 0) then PInf
              else if np_lt (sig_spec ! idx) (Fin 0) then NInf else NaN)
    \<and> scan_loop idx (freq # fs) sig_spec noise_spec (Fin t) (lows, highs, have_low)
        = scan_loop (Suc idx) fs sig_spec noise_spec (Fin t)
            (if have_low
             then (if np_lt (sig_spec ! idx) (Fin 0) then (lows, highs @ [freq], False)
                   else (lows, highs, True))
             else (if np_gt (sig_spec ! idx) (Fin 0) then (lows @ [freq], highs, True)
                   else (lows, highs, False)))
    \<and> (sig_spec ! idx = Fin 0 \<longrightarrow>
          scan_loop idx (freq # fs) sig_spec noise_spec (Fin t) (lows, highs, have_low)
            = scan_loop (Suc idx) fs sig_spec noise_spec (Fin t) (lows, highs, have_low))
    \<and> (idx + length (freq # fs) \<le> length sig_spec
        \<and> idx + length (freq # fs) \<le> length noise_spec \<longrightarrow>
          (\<exists>r. scan_loop idx (freq # fs) sig_spec noise_spec (Fin t) (lows, highs, have_low)
                 = Inr r))
    \<and> (length freqs \<le> length sig_spec \<and> length freqs \<le> length noise_spec \<longrightarrow>
          (\<exists>r. snr_corners freqs sig_spec noise_spec (Fin t) max_low_freq min_high_freq
                 = Inr r))"
proof -
  note q = zero_noise_quotient [of "sig_spec ! idx" t]
  from q assms(3)
  have quot: "np_div (sig_spec ! idx) (noise_spec ! idx)
           = (if np_gt (sig_spec ! idx) (Fin 0) then PInf
              else if np_lt (sig_spec ! idx) (Fin 0) then NInf else NaN)"
    by simp
  from q assms(3)
  have ge: "ratio_ge (sig_spec ! idx) (noise_spec ! idx) (Fin t) = np_gt (sig_spec ! idx) (Fin 0)"
    and lt: "ratio_lt (sig_spec ! idx) (noise_spec ! idx) (Fin t) = np_lt (sig_spec ! idx) (Fin 0)"
    by simp_all
  have step: "scan_loop idx (freq # fs) sig_spec noise_spec (Fin t) (lows, highs, have_low)
        = scan_loop (Suc idx) fs sig_spec noise_spec (Fin t)
            (if have_low
             then (if np_lt (sig_spec ! idx) (Fin 0) then (lows, highs @ [freq], False)
                   else (lows, highs, True))
             else (if np_gt (sig_spec ! idx) (Fin 0) then (lows @ [freq], highs, True)
                   else (lows, highs, False)))"
    using assms(1,2) by (simp add: ge lt)
  have same: "sig_spec ! idx = Fin 0 \<longrightarrow>
          scan_loop idx (freq # fs) sig_spec noise_spec (Fin t) (lows, highs, have_low)
            = scan_loop (Suc idx) fs sig_spec noise_spec (Fin t) (lows, highs, have_low)"
  proof
    assume z: "sig_spec ! idx = Fin 0"
    have "\<not> np_gt (Fin 0) (Fin 0)" and "\<not> np_lt (Fin 0) (Fin 0)"
      by (simp_all add: np_gt_def)
    with step z
    show "scan_loop idx (freq # fs) sig_spec noise_spec (Fin t) (lows, highs, have_low)
            = scan_loop (Suc idx) fs sig_spec noise_spec (Fin t) (lows, highs, have_low)"
      by (cases have_low) simp_all
  qed
  have ret: "idx + length (freq # fs) \<le> length sig_spec
        \<and> idx + length (freq # fs) \<le> length noise_spec \<longrightarrow>
          (\<exists>r. scan_loop idx (freq # fs) sig_spec noise_spec (Fin t) (lows, highs, have_low)
                 = Inr r)"
    using scan_loop_returns [of idx "freq # fs" sig_spec noise_spec "Fin t" "(lows, highs, have_low)"]
    by blast
  have dec: "length freqs \<le> length sig_spec \<and> length freqs \<le> length noise_spec \<longrightarrow>
          (\<exists>r. snr_corners freqs sig_spec noise_spec (Fin t) max_low_freq min_high_freq
                 = Inr r)"
    using snr_corners_returns [of freqs sig_spec noise_spec "Fin t" max_low_freq min_high_freq]
    by blast
  from quot step same ret dec show ?thesis by blast
qed

theorem zero_noise_bin_scan_witness:
  "(0::nat) < length [Fin 0, Fin 5] \<and> (0::nat) < length [Fin 0, Fin 0]
   \<and> [Fin 0, Fin 0] ! 0 = Fin 0
   \<and> [Fin 0, Fin 5] ! 0 = Fin 0
   \<and> np_div ([Fin 0, Fin 5] ! 0) ([Fin 0, Fin 0] ! 0) = NaN
   \<and> scan_loop 0 [Fin 0, Fin 1] [Fin 0, Fin 5] [Fin 0, Fin 0] (Fin 3) ([], [], False)
        = scan_loop (Suc 0) [Fin 1] [Fin 0, Fin 5] [Fin 0, Fin 0] (Fin 3) ([], [], False)
   \<and> scan_loop 0 [Fin 0, Fin 1] [Fin 0, Fin 5] [Fin 0, Fin 0] (Fin 3) ([], [], False)
        = Inr ([Fin 1], [], True)
   \<and> snr_corners [Fin 0, Fin 1] [Fin 0, Fin 5] [Fin 0, Fin 0] (Fin 3) (Fin 1) (Fin 0)
        = Inr (Some (Fin 1, Fin 1))"
proof -
  have p1: "(0::nat) < length [Fin 0, Fin 5]" and p2: "(0::nat) < length [Fin 0, Fin 0]"
    and p3: "[Fin 0, Fin 0] ! 0 = Fin 0" and p4: "[Fin 0, Fin 5] ! 0 = Fin 0"
    by simp_all
  note z = zero_noise_bin_scan [OF p1 p2 p3, of "Fin 0" "[Fin 1]" 3 "[]" "[]" False]
  from z p4 have q: "np_div ([Fin 0, Fin 5] ! 0) ([Fin 0, Fin 0] ! 0) = NaN"
    by (simp add: np_gt_def)
  from z p4
  have s: "scan_loop 0 [Fin 0, Fin 1] [Fin 0, Fin 5] [Fin 0, Fin 0] (Fin 3) ([], [], False)
        = scan_loop (Suc 0) [Fin 1] [Fin 0, Fin 5] [Fin 0, Fin 0] (Fin 3) ([], [], False)"
    by blast
  have rest: "scan_loop (Suc 0) [Fin 1] [Fin 0, Fin 5] [Fin 0, Fin 0] (Fin 3) ([], [], False)
        = Inr ([Fin 1], [], True)"
    by (simp add: ratio_ge_def np_ge_def inf_of_sign_def)
  from s rest
  have full: "scan_loop 0 [Fin 0, Fin 1] [Fin 0, Fin 5] [Fin 0, Fin 0] (Fin 3) ([], [], False)
        = Inr ([Fin 1], [], True)"
    by (simp only:)
  have c: "snr_corners [Fin 0, Fin 1] [Fin 0, Fin 5] [Fin 0, Fin 0] (Fin 3) (Fin 1) (Fin 0)
        = Inr (Some (Fin 1, Fin 1))"
    by (simp add: snr_corners_def ratio_ge_def np_ge_def inf_of_sign_def close_band_def
        np_gt_def spec_select_def spec_valid_pair_def)
  from p1 p2 p3 p4 q s full c show ?thesis by blast
qed

subsection \<open>The loop over the stream\<close>

lemma snr_decide_corners:
  "snr_decide a freqs sig_spec noise_spec threshold max_low_freq min_high_freq st =
     (case snr_corners freqs sig_spec noise_spec threshold max_low_freq min_high_freq of
        Inl e \<Rightarrow> Inl e
      | Inr None \<Rightarrow> reject a st
      | Inr (Some p) \<Rightarrow> Inr (accept a (fst p) (snd p) st))"
proof (cases "scan_loop 0 freqs sig_spec noise_spec threshold ([], [], False)")
  case (Inl e)
  then show ?thesis by (simp add: snr_decide_def snr_corners_def)
next
  case (Inr r)
  obtain lows highs have_low where r: "r = (lows, highs, have_low)" by (cases r) auto
  show ?thesis
  proof (cases "lows = []")
    case True
    with Inr r show ?thesis by (simp add: snr_decide_def snr_corners_def)
  next
    case False
    from Inr r have scan: "scan_loop 0 freqs sig_spec noise_spec threshold ([], [], False)
        = Inr (lows, highs, have_low)" by simp
    from snr_decide_select [OF scan False, of a max_low_freq min_high_freq st] scan False
    show ?thesis by (auto simp add: snr_corners_def)
  qed
qed

lemma snr_body_outcome:
  "snr_body ext a threshold max_low_freq min_high_freq st =
     (case snr_outcome ext threshold max_low_freq min_high_freq (heap st a) of
        Inl e \<Rightarrow> Inl e
      | Inr None \<Rightarrow> reject a st
      | Inr (Some p) \<Rightarrow> Inr (accept a (fst p) (snd p) st))"
  by (simp add: snr_body_def snr_outcome_def snr_decide_corners split: sum.splits prod.splits)

lemma snr_outcome_cong:
  "wave t = wave u \<Longrightarrow>
   processing_parameters t ''signal_split'' = processing_parameters u ''signal_split'' \<Longrightarrow>
   snr_outcome ext threshold max_low_freq min_high_freq t
     = snr_outcome ext threshold max_low_freq min_high_freq u"
  by (simp add: snr_outcome_def snr_spectra_def split: option.splits)

lemma snr_outcome_update_params:
  "snr_outcome ext threshold max_low_freq min_high_freq (update_params tr ''corner_frequencies'' d)
     = snr_outcome ext threshold max_low_freq min_high_freq tr"
  by (rule snr_outcome_cong) (simp_all add: update_params_def)

lemma array_equal_eq: "array_equal xs ys \<Longrightarrow> xs = ys"
proof -
  assume "array_equal xs ys"
  then have "list_all2 np_eq xs ys" by (simp add: array_equal_def)
  then have "list_all2 (=) xs ys"
    by (rule list_all2_mono) (simp add: np_eq_def)
  then show ?thesis by (simp add: list_all2_eq)
qed

lemma trace_eq_outcome:
  assumes "trace_eq t u"
  shows "snr_outcome ext threshold max_low_freq min_high_freq t
     = snr_outcome ext threshold max_low_freq min_high_freq u"
proof (rule snr_outcome_cong)
  from assms have "data (wave t) = data (wave u)"
    by (simp add: trace_eq_def array_equal_eq)
  with assms show "wave t = wave u"
    by (simp add: trace_eq_def np_eq_def waveform.equality)
  from assms show "processing_parameters t ''signal_split'' = processing_parameters u ''signal_split''"
    by (simp add: trace_eq_def)
qed

lemma list_remove_here:
  "\<forall>b \<in> set pre. b \<noteq> a \<and> \<not> trace_eq (h b) (h a) \<Longrightarrow>
   list_remove h a (pre @ a # as) = Inr (pre @ as)"
  by (induction pre) simp_all


lemma snr_outcome_annotated:
  "snr_outcome ext threshold max_low_freq min_high_freq
     (snr_annotated ext threshold max_low_freq min_high_freq tr)
   = snr_outcome ext threshold max_low_freq min_high_freq tr"
  by (simp add: snr_annotated_def snr_outcome_update_params split: sum.splits option.splits)

lemma wave_annotated:
  "wave (snr_annotated ext threshold max_low_freq min_high_freq tr) = wave tr"
  by (simp add: snr_annotated_def update_params_def split: sum.splits option.splits)

lemma snr_annotated_idem:
  "snr_annotated ext threshold max_low_freq min_high_freq
     (snr_annotated ext threshold max_low_freq min_high_freq tr)
   = snr_annotated ext threshold max_low_freq min_high_freq tr"
proof (cases "snr_outcome ext threshold max_low_freq min_high_freq tr")
  case (Inl e)
  then show ?thesis by (simp add: snr_annotated_def)
next
  case (Inr r)
  show ?thesis
  proof (cases r)
    case None
    with Inr show ?thesis by (simp add: snr_annotated_def)
  next
    case (Some p)
    with Inr have "snr_annotated ext threshold max_low_freq min_high_freq tr
        = update_params tr ''corner_frequencies'' (corner_dict ''snr'' (fst p) (snd p))"
      by (simp add: snr_annotated_def)
    with Inr Some show ?thesis
      by (simp add: snr_annotated_def snr_outcome_update_params update_params_idem)
  qed
qed

lemma accept_annotated:
  "snr_outcome ext threshold max_low_freq min_high_freq (heap st a) = Inr (Some p) \<Longrightarrow>
   accept a (fst p) (snd p) st
     = st\<lparr>heap := (heap st)(a := snr_annotated ext threshold max_low_freq min_high_freq (heap st a))\<rparr>"
  by (simp add: accept_def attach_def snr_annotated_def)

lemma snr_body_step:
  assumes "traces st = pre @ a # as"
    and "\<forall>b \<in> set pre. \<exists>p. snr_outcome ext threshold max_low_freq min_high_freq (heap st b) = Inr (Some p)"
  shows "snr_body ext a threshold max_low_freq min_high_freq st =
     (case snr_outcome ext threshold max_low_freq min_high_freq (heap st a) of
        Inl e \<Rightarrow> Inl e
      | Inr None \<Rightarrow>
          Inr (st\<lparr>traces := pre @ as,
                  logged := logged st @ [Removing_trace (wave (heap st a))]\<rparr>)
      | Inr (Some p) \<Rightarrow>
          Inr (st\<lparr>heap := (heap st)
                 (a := snr_annotated ext threshold max_low_freq min_high_freq (heap st a))\<rparr>))"
proof (cases "snr_outcome ext threshold max_low_freq min_high_freq (heap st a)")
  case (Inl e)
  then show ?thesis by (simp add: snr_body_outcome)
next
  case (Inr r)
  show ?thesis
  proof (cases r)
    case (Some p)
    with Inr accept_annotated [of ext threshold max_low_freq min_high_freq st a p]
    show ?thesis by (simp add: snr_body_outcome)
  next
    case None
    have "\<forall>b \<in> set pre. b \<noteq> a \<and> \<not> trace_eq (heap st b) (heap st a)"
    proof
      fix b assume "b \<in> set pre"
      with assms(2) obtain p
        where p: "snr_outcome ext threshold max_low_freq min_high_freq (heap st b) = Inr (Some p)"
        by blast
      with Inr None have "b \<noteq> a" by auto
      moreover from p Inr None
      have "\<not> trace_eq (heap st b) (heap st a)"
        using trace_eq_outcome [of "heap st b" "heap st a" ext threshold max_low_freq min_high_freq]
        by auto
      ultimately show "b \<noteq> a \<and> \<not> trace_eq (heap st b) (heap st a)" by simp
    qed
    then have "list_remove (heap st) a (pre @ a # as) = Inr (pre @ as)"
      by (rule list_remove_here)
    with Inr None assms(1) show ?thesis
      by (simp add: snr_body_outcome reject_def stream_remove_def logging_info_def)
  qed
qed


lemma snr_loop_result:
  assumes "traces st = pre @ as"
    and "\<forall>b \<in> set pre. \<exists>p. snr_outcome ext threshold max_low_freq min_high_freq (heap st b) = Inr (Some p)"
    and "\<forall>a \<in> set as. \<forall>e. snr_outcome ext threshold max_low_freq min_high_freq (heap st a) \<noteq> Inl e"
  shows "snr_loop ext as threshold max_low_freq min_high_freq st =
    Inr \<lparr>heap = (\<lambda>a. if a \<in> set as
                       then snr_annotated ext threshold max_low_freq min_high_freq (heap st a)
                       else heap st a),
         traces = pre @ filter (\<lambda>a. snr_outcome ext threshold max_low_freq min_high_freq (heap st a)
                                       \<noteq> Inr None) as,
         logged = logged st @ map (\<lambda>a. Removing_trace (wave (heap st a)))
                    (filter (\<lambda>a. snr_outcome ext threshold max_low_freq min_high_freq (heap st a)
                                    = Inr None) as)\<rparr>"
  using assms
proof (induction as arbitrary: st pre)
  case Nil
  then show ?case by simp
next
  case (Cons a as)
  let ?out = "\<lambda>tr. snr_outcome ext threshold max_low_freq min_high_freq tr"
  let ?ann = "\<lambda>tr. snr_annotated ext threshold max_low_freq min_high_freq tr"
  from Cons.prems(3) have ok: "\<forall>e. ?out (heap st a) \<noteq> Inl e" by simp
  note step = snr_body_step [OF Cons.prems(1) Cons.prems(2)]
  show ?case
  proof (cases "?out (heap st a)")
    case (Inl e)
    with ok show ?thesis by simp
  next
    case (Inr r)
    show ?thesis
    proof (cases r)
      case None
      let ?st1 = "st\<lparr>traces := pre @ as, logged := logged st @ [Removing_trace (wave (heap st a))]\<rparr>"
      from step Inr None
      have body: "snr_body ext a threshold max_low_freq min_high_freq st = Inr ?st1" by simp
      have "snr_loop ext as threshold max_low_freq min_high_freq ?st1 =
        Inr \<lparr>heap = (\<lambda>b. if b \<in> set as then ?ann (heap ?st1 b) else heap ?st1 b),
             traces = pre @ filter (\<lambda>b. ?out (heap ?st1 b) \<noteq> Inr None) as,
             logged = logged ?st1 @ map (\<lambda>b. Removing_trace (wave (heap ?st1 b)))
                        (filter (\<lambda>b. ?out (heap ?st1 b) = Inr None) as)\<rparr>"
        using Cons.prems(2,3) by (intro Cons.IH) simp_all
      moreover have "?ann (heap st a) = heap st a"
        using Inr None by (simp add: snr_annotated_def)
      ultimately show ?thesis
        using body Inr None by (auto simp add: fun_eq_iff)
    next
      case (Some p)
      let ?st1 = "st\<lparr>heap := (heap st)(a := ?ann (heap st a))\<rparr>"
      from step Inr Some
      have body: "snr_body ext a threshold max_low_freq min_high_freq st = Inr ?st1" by simp
      have out: "\<And>b. ?out (heap ?st1 b) = ?out (heap st b)"
        by (simp add: snr_outcome_annotated)
      have wav: "\<And>b. wave (heap ?st1 b) = wave (heap st b)"
        by (simp add: wave_annotated)
      have ann: "\<And>b. ?ann (heap ?st1 b) = ?ann (heap st b)"
        by (simp add: snr_annotated_idem)
      have "snr_loop ext as threshold max_low_freq min_high_freq ?st1 =
        Inr \<lparr>heap = (\<lambda>b. if b \<in> set as then ?ann (heap ?st1 b) else heap ?st1 b),
             traces = (pre @ [a]) @ filter (\<lambda>b. ?out (heap ?st1 b) \<noteq> Inr None) as,
             logged = logged ?st1 @ map (\<lambda>b. Removing_trace (wave (heap ?st1 b)))
                        (filter (\<lambda>b. ?out (heap ?st1 b) = Inr None) as)\<rparr>"
      proof (intro Cons.IH)
        show "traces ?st1 = (pre @ [a]) @ as" using Cons.prems(1) by simp
        show "\<forall>b \<in> set (pre @ [a]). \<exists>p. ?out (heap ?st1 b) = Inr (Some p)"
          using Cons.prems(2) Inr Some by (simp only: out) auto
        show "\<forall>b \<in> set as. \<forall>e. ?out (heap ?st1 b) \<noteq> Inl e"
          using Cons.prems(3) by (simp only: out) simp
      qed
      then have "snr_loop ext as threshold max_low_freq min_high_freq ?st1 =
        Inr \<lparr>heap = (\<lambda>b. if b \<in> set as then ?ann (heap st b) else heap ?st1 b),
             traces = (pre @ [a]) @ filter (\<lambda>b. ?out (heap st b) \<noteq> Inr None) as,
             logged = logged st @ map (\<lambda>b. Removing_trace (wave (heap st b)))
                        (filter (\<lambda>b. ?out (heap st b) = Inr None) as)\<rparr>"
        by (simp only: out wav ann) simp
      with body Inr Some show ?thesis
        by (auto simp add: fun_eq_iff)
    qed
  qed
qed

lemma snr_loop_error:
  assumes "traces st = pre @ as"
    and "\<forall>b \<in> set pre. \<exists>p. snr_outcome ext threshold max_low_freq min_high_freq (heap st b) = Inr (Some p)"
    and "\<exists>a \<in> set as. \<exists>e. snr_outcome ext threshold max_low_freq min_high_freq (heap st a) = Inl e"
  shows "\<exists>e. snr_loop ext as threshold max_low_freq min_high_freq st = Inl e"
  using assms
proof (induction as arbitrary: st pre)
  case Nil
  then show ?case by simp
next
  case (Cons a as)
  let ?out = "\<lambda>tr. snr_outcome ext threshold max_low_freq min_high_freq tr"
  let ?ann = "\<lambda>tr. snr_annotated ext threshold max_low_freq min_high_freq tr"
  note step = snr_body_step [OF Cons.prems(1) Cons.prems(2)]
  show ?case
  proof (cases "?out (heap st a)")
    case (Inl e)
    with step show ?thesis by simp
  next
    case (Inr r)
    with Cons.prems(3) have later: "\<exists>b \<in> set as. \<exists>e. ?out (heap st b) = Inl e" by auto
    show ?thesis
    proof (cases r)
      case None
      let ?st1 = "st\<lparr>traces := pre @ as, logged := logged st @ [Removing_trace (wave (heap st a))]\<rparr>"
      from step Inr None
      have body: "snr_body ext a threshold max_low_freq min_high_freq st = Inr ?st1" by simp
      have "\<exists>e. snr_loop ext as threshold max_low_freq min_high_freq ?st1 = Inl e"
        using Cons.prems(2) later by (intro Cons.IH [of _ pre]) simp_all
      with body show ?thesis by simp
    next
      case (Some p)
      let ?st1 = "st\<lparr>heap := (heap st)(a := ?ann (heap st a))\<rparr>"
      from step Inr Some
      have body: "snr_body ext a threshold max_low_freq min_high_freq st = Inr ?st1" by simp
      have out: "\<And>b. ?out (heap ?st1 b) = ?out (heap st b)"
        by (simp add: snr_outcome_annotated)
      have "\<exists>e. snr_loop ext as threshold max_low_freq min_high_freq ?st1 = Inl e"
      proof (intro Cons.IH [of _ "pre @ [a]"])
        show "traces ?st1 = (pre @ [a]) @ as" using Cons.prems(1) by simp
        show "\<forall>b \<in> set (pre @ [a]). \<exists>p. ?out (heap ?st1 b) = Inr (Some p)"
          using Cons.prems(2) Inr Some by (simp only: out) auto
        show "\<exists>b \<in> set as. \<exists>e. ?out (heap ?st1 b) = Inl e"
          using later by (simp only: out)
      qed
      with body show ?thesis by simp
    qed
  qed
qed

lemma ceil_log2_2: "ceil_log2 (Suc (Suc 0)) = 1"
  by code_simp

lemma rfftfreq_2_100: "rfftfreq 2 (Fin (fl64 (1 / 100))) = Inr [Fin 0, Fin 50]"
proof -
  have d: "fl64 (1 / 100) = 5764607523034235 / 576460752303423488"
    using fl64_scaled [of "1 / 100" 59] by (simp add: round_half_even_def Let_def)
  have nd: "fl64 (2 * (5764607523034235 / 576460752303423488))
              = 5764607523034235 / 288230376151711744"
    using fl64_scaled [of "2 * (5764607523034235 / 576460752303423488)" 58]
    by (simp add: round_half_even_def Let_def)
  have val: "fl64 (1 / (5764607523034235 / 288230376151711744)) = 50"
    using fl64_scaled [of "1 / (5764607523034235 / 288230376151711744)" 47]
    by (simp add: round_half_even_def Let_def)
  have step: "grid_step 2 100 = 50"
    by (simp only: grid_step_def of_nat_numeral d nd val)
  have one: "fl64 50 = 50"
    using fl64_scaled [of 50 47] by (simp add: round_half_even_def Let_def)
  have "rfftfreq 2 (Fin (fl64 (1 / 100)))
          = Inr (map (\<lambda>k. Fin (fl64 (real k * grid_step 2 100))) [0 ..< 2 div 2 + 1])"
    by (rule rfftfreq_finite) simp_all
  then show ?thesis
    by (simp add: step one fl64_zero)
qed

lemma split_trace_spectra:
  "snr_spectra split_numerics (split_trace x)
     = Inr ([Fin 0, Fin 50], [Fin ((x - 1) / 2), Fin ((x - 1) / 2)], [Fin (1 / 2), Fin (1 / 2)])"
  by (simp add: snr_spectra_def split_numerics_def split_trace_def npts_def snr_nfft_def
      next_pow_2_def ceil_log2_2 fft_smooth_def py_div_def rfftfreq_2_100 np_isub_def Let_def
      diff_divide_distrib)

lemma split_trace_outcome_9:
  "snr_outcome split_numerics (Fin 3) (Fin 0.1) (Fin 5) (split_trace 9) = Inr (Some (Fin 0, Fin 50))"
  by (simp add: snr_outcome_def split_trace_spectra snr_corners_def ratio_ge_def ratio_lt_def
      np_ge_def np_gt_def close_band_def spec_select_def spec_valid_pair_def)

lemma split_trace_outcome_1:
  "snr_outcome split_numerics (Fin 3) (Fin 0.1) (Fin 5) (split_trace 1) = Inr None"
  by (simp add: snr_outcome_def split_trace_spectra snr_corners_def ratio_ge_def ratio_lt_def
      np_ge_def np_gt_def close_band_def spec_select_def spec_valid_pair_def)


lemma snr_corners_None:
  "snr_corners freqs sig_spec noise_spec threshold max_low_freq min_high_freq = Inr None \<Longrightarrow>
   \<exists>lows highs have_low.
     scan_loop 0 freqs sig_spec noise_spec threshold ([], [], False) = Inr (lows, highs, have_low)
     \<and> (lows = [] \<or> (\<exists>highs1. close_band freqs lows highs = Inr highs1
            \<and> filter (spec_valid_pair max_low_freq min_high_freq) (zip lows highs1) = []))"
  by (auto simp add: snr_corners_def spec_select_def split: sum.splits if_splits list.splits)

text \<open>
  Claim C4. When no trace of the stream raises an exception of its own (a missing split
  time, an empty window), \<^verbatim>\<open>snr\<close> returns normally. The traces it keeps are those of
  the stream whose outcome is a pair, in their order; for every item of the stream whose
  outcome is no qualifying band (no low corner found, or no valid pair) it appends one
  message naming that trace to the log, in the order of the stream, and nothing else is
  logged; such a trace is no longer in the stream and its object is unchanged.
\<close>

theorem snr_rejects_and_logs:
  assumes "\<forall>a \<in> set (traces st). \<forall>e.
             snr_outcome ext threshold max_low_freq min_high_freq (heap st a) \<noteq> Inl e"
  shows "\<exists>st'. snr ext st threshold max_low_freq min_high_freq bandwidth = Inr st'
    \<and> traces st' = filter (\<lambda>a. snr_outcome ext threshold max_low_freq min_high_freq (heap st a)
                                  \<noteq> Inr None) (traces st)
    \<and> logged st' = logged st @ map (\<lambda>a. Removing_trace (wave (heap st a)))
                      (filter (\<lambda>a. snr_outcome ext threshold max_low_freq min_high_freq (heap st a)
                                      = Inr None) (traces st))
    \<and> (\<forall>a. snr_outcome ext threshold max_low_freq min_high_freq (heap st a) = Inr None
            \<longrightarrow> a \<notin> set (traces st') \<and> heap st' a = heap st a)"
proof -
  have "snr_loop ext (traces st) threshold max_low_freq min_high_freq st =
    Inr \<lparr>heap = (\<lambda>a. if a \<in> set (traces st)
                       then snr_annotated ext threshold max_low_freq min_high_freq (heap st a)
                       else heap st a),
         traces = [] @ filter (\<lambda>a. snr_outcome ext threshold max_low_freq min_high_freq (heap st a)
                                       \<noteq> Inr None) (traces st),
         logged = logged st @ map (\<lambda>a. Removing_trace (wave (heap st a)))
                    (filter (\<lambda>a. snr_outcome ext threshold max_low_freq min_high_freq (heap st a)
                                    = Inr None) (traces st))\<rparr>"
    using assms by (intro snr_loop_result) simp_all
  then show ?thesis
    by (simp add: snr_def snr_annotated_def)
qed

lemma split_stream_outcomes:
  "snr_outcome split_numerics (Fin 3) (Fin 0.1) (Fin 5) (heap split_stream 0)
     = Inr (Some (Fin 0, Fin 50))"
  "snr_outcome split_numerics (Fin 3) (Fin 0.1) (Fin 5) (heap split_stream (Suc 0)) = Inr None"
  by (simp_all add: split_stream_def split_trace_outcome_9 split_trace_outcome_1)

lemma split_stream_snr:
  "snr split_numerics split_stream (Fin 3) (Fin 0.1) (Fin 5) (Fin 20) =
     Inr \<lparr>heap = (\<lambda>a. if a \<in> set [0, Suc 0]
                        then snr_annotated split_numerics (Fin 3) (Fin 0.1) (Fin 5) (heap split_stream a)
                        else heap split_stream a),
          traces = [0],
          logged = [Removing_trace (wave (split_trace 1))]\<rparr>"
proof -
  have t: "traces split_stream = [] @ [0, Suc 0]" by (simp add: split_stream_def)
  have "snr_loop split_numerics [0, Suc 0] (Fin 3) (Fin 0.1) (Fin 5) split_stream =
     Inr \<lparr>heap = (\<lambda>a. if a \<in> set [0, Suc 0]
                        then snr_annotated split_numerics (Fin 3) (Fin 0.1) (Fin 5) (heap split_stream a)
                        else heap split_stream a),
          traces = [] @ filter (\<lambda>a. snr_outcome split_numerics (Fin 3) (Fin 0.1) (Fin 5)
                                       (heap split_stream a) \<noteq> Inr None) [0, Suc 0],
          logged = logged split_stream @ map (\<lambda>a. Removing_trace (wave (heap split_stream a)))
                     (filter (\<lambda>a. snr_outcome split_numerics (Fin 3) (Fin 0.1) (Fin 5)
                                       (heap split_stream a) = Inr None) [0, Suc 0])\<rparr>"
    using t by (rule snr_loop_result) (simp_all add: split_stream_outcomes)
  then show ?thesis
    by (simp add: snr_def split_stream_outcomes) (simp add: split_stream_def)
qed


theorem snr_rejects_and_logs_witness:
  "snr_outcome split_numerics (Fin 3) (Fin 0.1) (Fin 5) (heap split_stream 0)
     = Inr (Some (Fin 0, Fin 50))
   \<and> snr_outcome split_numerics (Fin 3) (Fin 0.1) (Fin 5) (heap split_stream 1) = Inr None
   \<and> traces split_stream = [0, 1]
   \<and> (\<exists>st'. snr split_numerics split_stream (Fin 3) (Fin 0.1) (Fin 5) (Fin 20) = Inr st'
         \<and> traces st' = [0]
         \<and> logged st' = [Removing_trace (wave (split_trace 1))]
         \<and> heap st' 1 = split_trace 1)"
proof -
  have ok: "\<forall>a \<in> set (traces split_stream). \<forall>e.
      snr_outcome split_numerics (Fin 3) (Fin 0.1) (Fin 5) (heap split_stream a) \<noteq> Inl e"
    by (simp add: split_stream_def split_trace_outcome_9 split_trace_outcome_1)
  from snr_rejects_and_logs [OF ok, of "Fin 20"] obtain st'
    where r: "snr split_numerics split_stream (Fin 3) (Fin 0.1) (Fin 5) (Fin 20) = Inr st'"
    and t: "traces st' = filter (\<lambda>a. snr_outcome split_numerics (Fin 3) (Fin 0.1) (Fin 5)
                                       (heap split_stream a) \<noteq> Inr None) (traces split_stream)"
    and l: "logged st' = logged split_stream @ map (\<lambda>a. Removing_trace (wave (heap split_stream a)))
                      (filter (\<lambda>a. snr_outcome split_numerics (Fin 3) (Fin 0.1) (Fin 5)
                                       (heap split_stream a) = Inr None) (traces split_stream))"
    and h: "\<forall>a. snr_outcome split_numerics (Fin 3) (Fin 0.1) (Fin 5) (heap split_stream a) = Inr None
            \<longrightarrow> a \<notin> set (traces st') \<and> heap st' a = heap split_stream a"
    by blast
  have ts: "traces split_stream = [0, Suc 0]" and ls: "logged split_stream = []"
    and h1: "heap split_stream (Suc 0) = split_trace 1"
    by (simp_all add: split_stream_def)
  from t have t': "traces st' = [0]" by (simp add: ts split_stream_outcomes)
  from l have l': "logged st' = [Removing_trace (wave (split_trace 1))]"
    by (simp add: ts ls split_stream_outcomes split_trace_outcome_1 h1)
  from h [rule_format, of "Suc 0"] have h': "heap st' (Suc 0) = split_trace 1"
    by (simp add: split_stream_outcomes split_trace_outcome_1 h1)
  from r t' l' h' ts show ?thesis
    by (auto simp add: split_stream_outcomes)
qed


text \<open>
  Claim C2. When \<^verbatim>\<open>snr\<close> returns, every trace still in the stream was in it before,
  its outcome is a pair, and it carries under \<^verbatim>\<open>corner_frequencies\<close> the dictionary of
  type \<^verbatim>\<open>snr\<close> with that pair; and every trace of the stream it was given either is
  still there and carries a result, or is gone and its outcome is no qualifying band.
  No item is skipped: the loop runs over the copy of the list, and the removal deletes
  the item the loop is at.
\<close>

theorem snr_annotates_or_removes:
  assumes "snr ext st threshold max_low_freq min_high_freq bandwidth = Inr st'"
  shows "(\<forall>a \<in> set (traces st').
            a \<in> set (traces st)
          \<and> (\<exists>low high. snr_outcome ext threshold max_low_freq min_high_freq (heap st a)
                           = Inr (Some (low, high))
               \<and> processing_parameters (heap st' a) ''corner_frequencies''
                   = Some [''type'' \<mapsto> Str ''snr'', ''highpass'' \<mapsto> Num low,
                           ''lowpass'' \<mapsto> Num high]))
    \<and> (\<forall>a \<in> set (traces st).
            (a \<in> set (traces st')
             \<and> (\<exists>d. processing_parameters (heap st' a) ''corner_frequencies'' = Some d))
          \<or> (a \<notin> set (traces st')
             \<and> snr_outcome ext threshold max_low_freq min_high_freq (heap st a) = Inr None))"
proof -
  let ?out = "\<lambda>a. snr_outcome ext threshold max_low_freq min_high_freq (heap st a)"
  have ok: "\<forall>a \<in> set (traces st). \<forall>e. ?out a \<noteq> Inl e"
  proof (rule ccontr)
    assume "\<not> (\<forall>a \<in> set (traces st). \<forall>e. ?out a \<noteq> Inl e)"
    then have "\<exists>a \<in> set (traces st). \<exists>e. ?out a = Inl e" by blast
    then have "\<exists>e. snr_loop ext (traces st) threshold max_low_freq min_high_freq st = Inl e"
      by (intro snr_loop_error [of _ "[]"]) simp_all
    with assms show False by (simp add: snr_def)
  qed
  have "snr_loop ext (traces st) threshold max_low_freq min_high_freq st =
    Inr \<lparr>heap = (\<lambda>a. if a \<in> set (traces st)
                       then snr_annotated ext threshold max_low_freq min_high_freq (heap st a)
                       else heap st a),
         traces = [] @ filter (\<lambda>a. ?out a \<noteq> Inr None) (traces st),
         logged = logged st @ map (\<lambda>a. Removing_trace (wave (heap st a)))
                    (filter (\<lambda>a. ?out a = Inr None) (traces st))\<rparr>"
    using ok by (intro snr_loop_result) simp_all
  with assms have st': "st' =
    \<lparr>heap = (\<lambda>a. if a \<in> set (traces st)
                       then snr_annotated ext threshold max_low_freq min_high_freq (heap st a)
                       else heap st a),
         traces = filter (\<lambda>a. ?out a \<noteq> Inr None) (traces st),
         logged = logged st @ map (\<lambda>a. Removing_trace (wave (heap st a)))
                    (filter (\<lambda>a. ?out a = Inr None) (traces st))\<rparr>"
    by (simp add: snr_def)
  have some: "\<And>a. a \<in> set (traces st) \<Longrightarrow> ?out a \<noteq> Inr None \<Longrightarrow>
      \<exists>low high. ?out a = Inr (Some (low, high))"
  proof -
    fix a assume "a \<in> set (traces st)" and n: "?out a \<noteq> Inr None"
    with ok have "\<forall>e. ?out a \<noteq> Inl e" by blast
    with n show "\<exists>low high. ?out a = Inr (Some (low, high))"
      by (cases "?out a") auto
  qed
  have first: "\<forall>a \<in> set (traces st').
            a \<in> set (traces st)
          \<and> (\<exists>low high. ?out a = Inr (Some (low, high))
               \<and> processing_parameters (heap st' a) ''corner_frequencies''
                   = Some [''type'' \<mapsto> Str ''snr'', ''highpass'' \<mapsto> Num low,
                           ''lowpass'' \<mapsto> Num high])"
  proof
    fix a assume "a \<in> set (traces st')"
    with st' have a: "a \<in> set (traces st)" and n: "?out a \<noteq> Inr None" by simp_all
    from some [OF a n] obtain low high where lh: "?out a = Inr (Some (low, high))" by blast
    with a st' have "processing_parameters (heap st' a) ''corner_frequencies''
                   = Some [''type'' \<mapsto> Str ''snr'', ''highpass'' \<mapsto> Num low,
                           ''lowpass'' \<mapsto> Num high]"
      by (simp add: snr_annotated_def update_params_def corner_dict_def)
    with a lh show "a \<in> set (traces st)
          \<and> (\<exists>low high. ?out a = Inr (Some (low, high))
               \<and> processing_parameters (heap st' a) ''corner_frequencies''
                   = Some [''type'' \<mapsto> Str ''snr'', ''highpass'' \<mapsto> Num low,
                           ''lowpass'' \<mapsto> Num high])"
      by blast
  qed
  have second: "\<forall>a \<in> set (traces st).
            (a \<in> set (traces st')
             \<and> (\<exists>d. processing_parameters (heap st' a) ''corner_frequencies'' = Some d))
          \<or> (a \<notin> set (traces st') \<and> ?out a = Inr None)"
  proof
    fix a assume a: "a \<in> set (traces st)"
    show "(a \<in> set (traces st')
             \<and> (\<exists>d. processing_parameters (heap st' a) ''corner_frequencies'' = Some d))
          \<or> (a \<notin> set (traces st') \<and> ?out a = Inr None)"
    proof (cases "?out a = Inr None")
      case True
      with st' show ?thesis by simp
    next
      case False
      with a st' have "a \<in> set (traces st')" by simp
      with first show ?thesis by blast
    qed
  qed
  from first second show ?thesis by blast
qed

theorem snr_annotates_or_removes_witness:
  "\<exists>st'. snr split_numerics split_stream (Fin 3) (Fin 0.1) (Fin 5) (Fin 20) = Inr st'
     \<and> traces split_stream = [0, 1]
     \<and> traces st' = [0]
     \<and> processing_parameters (heap st' 0) ''corner_frequencies''
          = Some [''type'' \<mapsto> Str ''snr'', ''highpass'' \<mapsto> Num (Fin 0), ''lowpass'' \<mapsto> Num (Fin 50)]
     \<and> snr_outcome split_numerics (Fin 3) (Fin 0.1) (Fin 5) (heap split_stream 1) = Inr None"
proof -
  let ?st' = "\<lparr>heap = (\<lambda>a. if a \<in> set [0, Suc 0]
                        then snr_annotated split_numerics (Fin 3) (Fin 0.1) (Fin 5) (heap split_stream a)
                        else heap split_stream a),
          traces = [0],
          logged = [Removing_trace (wave (split_trace 1))]\<rparr>"
  note r = split_stream_snr
  from snr_annotates_or_removes [OF r]
  have "\<forall>a \<in> set (traces ?st').
            a \<in> set (traces split_stream)
          \<and> (\<exists>low high. snr_outcome split_numerics (Fin 3) (Fin 0.1) (Fin 5) (heap split_stream a)
                           = Inr (Some (low, high))
               \<and> processing_parameters (heap ?st' a) ''corner_frequencies''
                   = Some [''type'' \<mapsto> Str ''snr'', ''highpass'' \<mapsto> Num low,
                           ''lowpass'' \<mapsto> Num high])"
    by blast
  then have "\<exists>low high. snr_outcome split_numerics (Fin 3) (Fin 0.1) (Fin 5) (heap split_stream 0)
                           = Inr (Some (low, high))
               \<and> processing_parameters (heap ?st' 0) ''corner_frequencies''
                   = Some [''type'' \<mapsto> Str ''snr'', ''highpass'' \<mapsto> Num low,
                           ''lowpass'' \<mapsto> Num high]"
    by simp
  then have p: "processing_parameters (heap ?st' 0) ''corner_frequencies''
          = Some [''type'' \<mapsto> Str ''snr'', ''highpass'' \<mapsto> Num (Fin 0), ''lowpass'' \<mapsto> Num (Fin 50)]"
    by (simp only: split_stream_outcomes) auto
  have ts: "traces split_stream = [0, 1]" by (simp add: split_stream_def)
  have "snr split_numerics split_stream (Fin 3) (Fin 0.1) (Fin 5) (Fin 20) = Inr ?st'
     \<and> traces split_stream = [0, 1]
     \<and> traces ?st' = [0]
     \<and> processing_parameters (heap ?st' 0) ''corner_frequencies''
          = Some [''type'' \<mapsto> Str ''snr'', ''highpass'' \<mapsto> Num (Fin 0), ''lowpass'' \<mapsto> Num (Fin 50)]
     \<and> snr_outcome split_numerics (Fin 3) (Fin 0.1) (Fin 5) (heap split_stream 1) = Inr None"
    using r p ts by (simp add: split_stream_outcomes)
  then show ?thesis by blast
qed

end
